theory Spec2Isabelle
  imports Complex_Main "HOL-Library.Sublist" "HOL-Library.AList" "HOL-Library.Word"
begin

section \<open>Strings\<close>

text \<open>
  A JavaScript string is modelled as a \<^typ>\<open>string\<close>; each \<^typ>\<open>char\<close> stands for one
  code unit in the range 0..255 (read as Latin-1).  Code units above 255 are outside the
  model.  The functions below follow the built-in string methods the services call.
\<close>

definition lowerChar :: "char \<Rightarrow> char" where
  "lowerChar c =
     (let n = (of_char c :: nat) in
      if (65 \<le> n \<and> n \<le> 90) \<or> (192 \<le> n \<and> n \<le> 222 \<and> n \<noteq> 215)
      then char_of (n + 32) else c)"

definition toLowerCase :: "string \<Rightarrow> string" where
  "toLowerCase s = map lowerChar s"

definition startsWith :: "string \<Rightarrow> string \<Rightarrow> bool" where
  "startsWith s p = (take (length p) s = p)"

text \<open>\<open>s.includes(p)\<close>: \<open>p\<close> occurs in \<open>s\<close> as a contiguous substring.\<close>

fun includesStr :: "string \<Rightarrow> string \<Rightarrow> bool" where
  "includesStr [] p = (p = [])"
| "includesStr (c # cs) p = (startsWith (c # cs) p \<or> includesStr cs p)"

text \<open>The class \<open>\s\<close> of regular expressions, which is also what \<open>trim\<close> removes.\<close>

definition isSpace :: "char \<Rightarrow> bool" where
  "isSpace c = (of_char c \<in> {9, 10, 11, 12, 13, 32, 160 :: nat})"

definition trim :: "string \<Rightarrow> string" where
  "trim s = rev (dropWhile isSpace (rev (dropWhile isSpace s)))"

text \<open>
  \<open>s.split(/\s+/)\<close>: every maximal run of whitespace is one separator, so a string that
  starts or ends with whitespace yields an empty first or last piece, and the empty string
  yields one empty piece.
\<close>

function splitWs :: "string \<Rightarrow> string list" where
  "splitWs [] = [[]]"
| "splitWs (c # cs) =
     (if isSpace c then [] # splitWs (dropWhile isSpace cs)
      else (case splitWs cs of t # ts \<Rightarrow> (c # t) # ts | [] \<Rightarrow> [[c]]))"
  by pat_completeness auto
termination
  by (relation "measure length") (auto simp add: length_dropWhile_le less_Suc_eq_le)

text \<open>Decimal rendering of a number inside a template string.\<close>

fun showNat :: "nat \<Rightarrow> string" where
  "showNat n =
     (if n < 10 then [''0123456789'' ! n]
      else showNat (n div 10) @ [''0123456789'' ! (n mod 10)])"

declare showNat.simps [simp del]

definition showInt :: "int \<Rightarrow> string" where
  "showInt i = (if i < 0 then CHR ''-'' # showNat (nat (- i)) else showNat (nat i))"

section \<open>Errors, logging and the observable trace\<close>

text \<open>
  A thrown value is an \<open>Error\<close> carrying its message.  A function that may throw returns
  \<open>js_error + 'a\<close>, with \<open>Inl\<close> for the thrown error.
\<close>

datatype js_error = Error (message: string)

text \<open>
  Each service owns a logger and runs against an outside world \<open>'w\<close> (the remote
  services and the wall clock).  Its state is the outside world together with a trace:
  the message of every logger call, and one event for every invocation of a wrapped
  operation, every awaited delay and every remote request, oldest first.  The invocation,
  delay and request events are not written by the source; they record that the call
  happened, so that calls can be counted.  Only the message argument of a logger call is
  recorded (not the stack trace or the object passed along with it).
\<close>

datatype level = LOG | WARN | ERROR

datatype event =
    Logged level string
  | Invoked string
  | Slept nat
  | Requested string
  | Converted string

record 'w state =
  remote :: 'w
  trace :: "event list"

definition emit :: "event \<Rightarrow> 'w state \<Rightarrow> 'w state" where
  "emit ev s = s\<lparr>trace := trace s @ [ev]\<rparr>"

definition logger :: "level \<Rightarrow> string \<Rightarrow> 'w state \<Rightarrow> 'w state" where
  "logger l m s = emit (Logged l m) s"

section \<open>PersonaPipelineService: classifier and retry executor\<close>

definition transientPatterns :: "string list" where
  "transientPatterns =
     [''timeout'', ''network'', ''connection'', ''econnrefused'', ''enotfound'',
      ''etimedout'', ''socket hang up'', ''temporarily unavailable'']"

definition nonRetryablePatterns :: "string list" where
  "nonRetryablePatterns =
     [''rate limit'', ''quota'', ''authentication'', ''api key'', ''invalid'',
      ''not found'', ''private'', ''inaccessible'', ''validation'']"

definition isTransientError :: "js_error \<Rightarrow> bool" where
  "isTransientError error =
     (let msg = toLowerCase (message error);
          isTransient = list_ex (\<lambda>pattern. includesStr msg pattern) transientPatterns;
          isNonRetryable = list_ex (\<lambda>pattern. includesStr msg pattern) nonRetryablePatterns
      in isTransient \<and> \<not> isNonRetryable)"

text \<open>
  \<open>sleep(ms)\<close> awaits a timer.  What the wait does to the outside world (the clock moves
  on) is the parameter \<open>timer\<close>.
\<close>

definition sleep :: "(nat \<Rightarrow> 'w \<Rightarrow> 'w) \<Rightarrow> nat \<Rightarrow> 'w state \<Rightarrow> 'w state" where
  "sleep timer ms s = emit (Slept ms) (s\<lparr>remote := timer ms (remote s)\<rparr>)"

text \<open>
  The \<open>for\<close> loop of \<open>retryWithBackoff\<close>, with the loop variable \<open>attempt\<close> and the
  variable \<open>lastError\<close> as arguments.  The wrapped operation \<open>fn\<close> acts on the outside
  world only.  \<open>maxRetries\<close> is a count, hence a natural number.
\<close>

function retryLoop ::
  "(nat \<Rightarrow> 'w \<Rightarrow> 'w) \<Rightarrow> ('w \<Rightarrow> (js_error + 'a) \<times> 'w) \<Rightarrow> string \<Rightarrow> nat \<Rightarrow> nat \<Rightarrow>
   js_error option \<Rightarrow> 'w state \<Rightarrow> (js_error + 'a) \<times> 'w state" where
  "retryLoop timer fn operationName maxRetries attempt lastError s =
     (if attempt \<le> maxRetries then
        (case fn (remote s) of
           (Inr v, w) \<Rightarrow> (Inr v, emit (Invoked operationName) (s\<lparr>remote := w\<rparr>))
         | (Inl error, w) \<Rightarrow>
             (let s1 = emit (Invoked operationName) (s\<lparr>remote := w\<rparr>) in
              if attempt = maxRetries \<or> \<not> isTransientError error then
                (Inl error,
                 logger ERROR (operationName @ '' failed after '' @ showNat (attempt + 1)
                               @ '' attempt(s): '' @ message error) s1)
              else
                (let delay = 2 ^ attempt * 1000;
                     s2 = logger WARN (operationName @ '' failed (attempt ''
                            @ showNat (attempt + 1) @ ''/'' @ showNat (maxRetries + 1)
                            @ ''): '' @ message error @ ''. Retrying in ''
                            @ showNat delay @ ''ms...'') s1;
                     s3 = sleep timer delay s2
                 in retryLoop timer fn operationName maxRetries (attempt + 1) (Some error) s3)))
      else
        (Inl (case lastError of
                Some e \<Rightarrow> e
              | None \<Rightarrow> Error (operationName @ '' failed after all retries'')), s))"
  by pat_completeness auto
termination
  by (relation "measure (\<lambda>(timer, fn, operationName, maxRetries, attempt, lastError, s).
                   Suc maxRetries - attempt)")
     auto

declare retryLoop.simps [simp del]

definition retryWithBackoff ::
  "(nat \<Rightarrow> 'w \<Rightarrow> 'w) \<Rightarrow> ('w \<Rightarrow> (js_error + 'a) \<times> 'w) \<Rightarrow> string \<Rightarrow> nat \<Rightarrow>
   'w state \<Rightarrow> (js_error + 'a) \<times> 'w state" where
  "retryWithBackoff timer fn operationName maxRetries s =
     retryLoop timer fn operationName maxRetries 0 None s"

section \<open>PersonaPipelineService: the pipeline\<close>

datatype verbosity = Low | Medium | High

record ProfessionalContext =
  role :: string
  industry :: string
  seniority :: string

record CommunicationStyle =
  tone :: string
  verbosity :: verbosity

record DesignPreferences =
  visualStyle :: string
  uxPriority :: string

record ContentPreferences =
  respondsTo :: "string list"
  avoids :: "string list"

record DesignGuidance =
  guidanceDo :: "string list"
  guidanceAvoid :: "string list"

record ProfileAnalysis =
  professionalContext :: ProfessionalContext
  communicationStyle :: CommunicationStyle
  inferredDesignPreferences :: DesignPreferences
  inferredContentPreferences :: ContentPreferences

record PersonaResult =
  personaName :: string
  summary :: string
  professionalContext :: ProfessionalContext
  communicationStyle :: CommunicationStyle
  designBiases :: DesignPreferences
  contentBiases :: ContentPreferences
  briefConflicts :: "string list"
  designGuidance :: DesignGuidance

record AudioResult =
  audioBuffer :: "8 word list"
  audioUrl :: "string option"
  duration :: nat

record PersonaGenerationResult =
  persona :: PersonaResult
  audioUrl :: string
  audioScript :: string
  processingTime :: int

text \<open>
  The collaborators injected into \<open>PersonaPipelineService\<close> and the platform functions it
  calls: the four service methods (each acts on the outside world and returns a value or
  throws), \<open>Date.now()\<close>, the timer behind \<open>sleep\<close>, and \<open>Buffer.toString('base64')\<close>.
\<close>

record 'w collaborators =
  gemini_analyzeArticleText :: "string \<Rightarrow> 'w \<Rightarrow> (js_error + ProfileAnalysis) \<times> 'w"
  gemini_generatePersona ::
    "ProfileAnalysis \<Rightarrow> string \<Rightarrow> 'w \<Rightarrow> (js_error + PersonaResult) \<times> 'w"
  gemini_generateAudioScript :: "PersonaResult \<Rightarrow> 'w \<Rightarrow> (js_error + string) \<times> 'w"
  elevenLabs_synthesizeSpeech :: "string \<Rightarrow> 'w \<Rightarrow> (js_error + AudioResult) \<times> 'w"
  dateNow :: "'w \<Rightarrow> int"
  setTimeout :: "nat \<Rightarrow> 'w \<Rightarrow> 'w"
  toBase64 :: "8 word list \<Rightarrow> string"

text \<open>Step 1 of \<open>generatePersona\<close>: analysis, through the retry executor.\<close>

definition analysisStep ::
  "'w collaborators \<Rightarrow> string \<Rightarrow> 'w state \<Rightarrow> (js_error + ProfileAnalysis) \<times> 'w state" where
  "analysisStep E articleText s =
     (case retryWithBackoff (setTimeout E) (gemini_analyzeArticleText E articleText)
             ''Article text analysis'' 2
             (logger LOG ''Step 1/4: Analyzing article text with Gemini'' s) of
        (Inl error, s1) \<Rightarrow> (Inl error, s1)
      | (Inr analysis, s1) \<Rightarrow> (Inr analysis, logger LOG ''Article analysis complete'' s1))"

text \<open>Step 2: persona generation.\<close>

definition personaStep ::
  "'w collaborators \<Rightarrow> ProfileAnalysis \<Rightarrow> string \<Rightarrow> 'w state \<Rightarrow>
   (js_error + PersonaResult) \<times> 'w state" where
  "personaStep E analysis designBrief s =
     (case retryWithBackoff (setTimeout E) (gemini_generatePersona E analysis designBrief)
             ''Persona generation'' 2
             (logger LOG ''Step 2/4: Generating persona with Gemini'' s) of
        (Inl error, s1) \<Rightarrow> (Inl error, s1)
      | (Inr persona', s1) \<Rightarrow>
          (Inr persona', logger LOG (''Persona generated: '' @ personaName persona') s1))"

text \<open>Step 3: script generation.\<close>

definition scriptStep ::
  "'w collaborators \<Rightarrow> PersonaResult \<Rightarrow> 'w state \<Rightarrow> (js_error + string) \<times> 'w state" where
  "scriptStep E persona' s =
     (case retryWithBackoff (setTimeout E) (gemini_generateAudioScript E persona')
             ''Audio script generation'' 2
             (logger LOG ''Step 3/4: Generating audio script with Gemini'' s) of
        (Inl error, s1) \<Rightarrow> (Inl error, s1)
      | (Inr script, s1) \<Rightarrow>
          (Inr script,
           logger LOG (''Audio script generated ('' @ showNat (length (splitWs script))
                       @ '' words)'') s1))"

text \<open>Step 4: the call guarded by the inner \<open>try\<close>, and the inner \<open>try\<close>/\<open>catch\<close> itself.\<close>

definition synthesisCall ::
  "'w collaborators \<Rightarrow> string \<Rightarrow> 'w state \<Rightarrow> (js_error + AudioResult) \<times> 'w state" where
  "synthesisCall E script s =
     retryWithBackoff (setTimeout E) (elevenLabs_synthesizeSpeech E script)
       ''Audio synthesis'' 2
       (logger LOG ''Calling ElevenLabs service...''
          (logger LOG ''Step 4/4: Synthesizing audio with ElevenLabs'' s))"

definition audioStep :: "'w collaborators \<Rightarrow> string \<Rightarrow> 'w state \<Rightarrow> string \<times> 'w state" where
  "audioStep E script s =
     (case synthesisCall E script s of
        (Inr audioResult, s1) \<Rightarrow>
          (let s2 = logger LOG (''Audio result received. Buffer size: ''
                      @ showNat (length (audioBuffer audioResult)) @ '' bytes'') s1;
               base64Audio = toBase64 E (audioBuffer audioResult);
               s3 = logger LOG (''Base64 conversion complete. Length: ''
                      @ showNat (length base64Audio) @ '' characters'') s2;
               url = ''data:audio/mpeg;base64,'' @ base64Audio;
               s4 = logger LOG (''Audio URL created. Length: '' @ showNat (length url)
                      @ '' characters'') s3;
               s5 = logger LOG ''Audio synthesis complete'' s4
           in (url, s5))
      | (Inl audioError, s1) \<Rightarrow>
          (let s2 = logger ERROR (''Audio synthesis failed: '' @ message audioError) s1;
               s3 = logger ERROR ''Full error object:'' s2;
               s4 = logger WARN ''Continuing without audio - text script will be provided'' s3
           in ([], s4)))"

text \<open>The body of the outer \<open>try\<close>.\<close>

definition pipelineBody ::
  "'w collaborators \<Rightarrow> string \<Rightarrow> string \<Rightarrow> int \<Rightarrow> 'w state \<Rightarrow>
   (js_error + PersonaGenerationResult) \<times> 'w state" where
  "pipelineBody E articleText designBrief startTime s =
     (case analysisStep E articleText s of
        (Inl error, s1) \<Rightarrow> (Inl error, s1)
      | (Inr analysis, s1) \<Rightarrow>
     (case personaStep E analysis designBrief s1 of
        (Inl error, s2) \<Rightarrow> (Inl error, s2)
      | (Inr persona', s2) \<Rightarrow>
     (case scriptStep E persona' s2 of
        (Inl error, s3) \<Rightarrow> (Inl error, s3)
      | (Inr script, s3) \<Rightarrow>
          (case audioStep E script s3 of
             (url, s4) \<Rightarrow>
               (let elapsed = dateNow E (remote s4) - startTime;
                    s5 = logger LOG (''Pipeline complete in '' @ showInt elapsed
                           @ ''ms'') s4
                in (Inr \<lparr>persona = persona', audioUrl = url, audioScript = script,
                          processingTime = elapsed\<rparr>, s5))))))"

definition generatePersona ::
  "'w collaborators \<Rightarrow> string \<Rightarrow> string \<Rightarrow> 'w state \<Rightarrow>
   (js_error + PersonaGenerationResult) \<times> 'w state" where
  "generatePersona E articleText designBrief s0 =
     (let s = logger LOG ''Starting persona generation pipeline'' s0;
          startTime = dateNow E (remote s)
      in case pipelineBody E articleText designBrief startTime s of
           (Inr result, s') \<Rightarrow> (Inr result, s')
         | (Inl error, s') \<Rightarrow>
             (let elapsed = dateNow E (remote s') - startTime;
                  s'' = logger ERROR (''Pipeline failed after '' @ showInt elapsed
                          @ ''ms: '' @ message error) s'
              in (Inl (Error (''Persona generation failed: '' @ message error)), s'')))"

section \<open>ElevenLabsService\<close>

text \<open>
  What \<open>ElevenLabsService\<close> depends on: \<open>convert\<close> is the call
  \<open>client.textToSpeech.convert\<close> with the fixed voice and model, followed by draining the
  audio stream into a buffer; either may throw.  \<open>estimate\<close> is the floating-point
  expression \<open>Math.ceil((wordCount / 150) * 60)\<close>.
\<close>

record 'w speechDeps =
  convert :: "string \<Rightarrow> 'w \<Rightarrow> (js_error + 8 word list) \<times> 'w"
  estimate :: "nat \<Rightarrow> nat"

text \<open>
  The \<open>catch\<close> block of \<open>synthesizeSpeech\<close>.  Every thrown value of the model is of
  class \<open>Error\<close>, which is what the second log line prints.
\<close>

definition synthesizeSpeech_catch ::
  "js_error \<Rightarrow> 'w state \<Rightarrow> (js_error + AudioResult) \<times> 'w state" where
  "synthesizeSpeech_catch error s =
     (let s1 = logger ERROR ''Failed to synthesize speech with ElevenLabs'' s;
          s2 = logger ERROR ''Error type: Error'' s1;
          s3 = logger ERROR (''Error message: '' @ message error) s2;
          s4 = logger ERROR ''Full error:'' s3
      in if includesStr (message error) ''quota'' \<or> includesStr (message error) ''rate limit''
         then (Inl (Error ''ElevenLabs rate limit exceeded. Please try again later.''), s4)
         else if includesStr (message error) ''authentication''
                 \<or> includesStr (message error) ''API key''
         then (Inl (Error
                 ''ElevenLabs authentication failed. Please check API key configuration.''), s4)
         else if includesStr (message error) ''Script cannot be empty''
         then (Inl error, s4)
         else (Inl (Error (''Audio synthesis failed: ''
                 @ (if message error = [] then ''Unknown error'' else message error))), s4))"

definition synthesizeSpeech ::
  "'w speechDeps \<Rightarrow> string \<Rightarrow> 'w state \<Rightarrow> (js_error + AudioResult) \<times> 'w state" where
  "synthesizeSpeech D script s =
     (let s1 = logger LOG ''Synthesizing speech with ElevenLabs'' s;
          s2 = logger LOG (''Script length: '' @ showNat (length script) @ '' characters, ''
                 @ showNat (length (splitWs script)) @ '' words'') s1
      in if script = [] \<or> length (trim script) = 0
         then synthesizeSpeech_catch (Error ''Script cannot be empty'') s2
         else
           (let s3 = logger LOG ''Using voice: Rachel (EXAVITQu4vr4xnSDxMaL)'' s2;
                s4 = emit (Converted script) (logger LOG ''Calling ElevenLabs API...'' s3)
            in case convert D script (remote s4) of
                 (Inl error, w) \<Rightarrow> synthesizeSpeech_catch error (s4\<lparr>remote := w\<rparr>)
               | (Inr buffer, w) \<Rightarrow>
                   (let s5 = logger LOG ''Audio stream received, converting to buffer...''
                               (s4\<lparr>remote := w\<rparr>);
                        s6 = logger LOG (''Buffer created. Size: '' @ showNat (length buffer)
                               @ '' bytes'') s5;
                        wordCount = length (splitWs script);
                        estimatedDuration = estimate D wordCount;
                        s7 = logger LOG (''Audio synthesis complete. Buffer size: ''
                               @ showNat (length buffer) @ '' bytes, Estimated duration: ''
                               @ showNat estimatedDuration @ ''s'') s6
                    in (Inr \<lparr>audioBuffer = buffer, audioUrl = None,
                              duration = estimatedDuration\<rparr>, s7))))"

section \<open>GeminiService: cleaning model output\<close>

definition fence :: string where
  "fence = [CHR 0x60, CHR 0x60, CHR 0x60]"

definition dropNewline :: "string \<Rightarrow> string" where
  "dropNewline s = (case s of [] \<Rightarrow> [] | c # cs \<Rightarrow> if c = CHR 0x0A then cs else s)"

definition isLowerLetter :: "char \<Rightarrow> bool" where
  "isLowerLetter c = (97 \<le> (of_char c :: nat) \<and> (of_char c :: nat) \<le> 122)"

text \<open>
  A matcher tells whether a pattern matches at the start of a string and, if so, returns
  what follows the match.  The three fence patterns: three backticks followed by
  \<open>json\<close> and an optional newline; three backticks followed by lower-case letters and an
  optional newline; three backticks and an optional newline.
\<close>

definition fenceJson :: "string \<Rightarrow> string option" where
  "fenceJson s =
     (if startsWith s (fence @ ''json'') then Some (dropNewline (drop 7 s)) else None)"

definition fenceTagged :: "string \<Rightarrow> string option" where
  "fenceTagged s =
     (if startsWith s fence then Some (dropNewline (dropWhile isLowerLetter (drop 3 s)))
      else None)"

definition fencePlain :: "string \<Rightarrow> string option" where
  "fencePlain s = (if startsWith s fence then Some (dropNewline (drop 3 s)) else None)"

text \<open>
  \<open>s.replace(/pattern/g, '')\<close>: scanning from the left, every match is removed and the
  scan continues behind it.
\<close>

function removeAll :: "(string \<Rightarrow> string option) \<Rightarrow> string \<Rightarrow> string" where
  "removeAll m [] = []"
| "removeAll m (c # cs) =
     (case m (c # cs) of
        None \<Rightarrow> c # removeAll m cs
      | Some rest \<Rightarrow>
          if length rest < length (c # cs) then removeAll m rest else c # removeAll m cs)"
  by pat_completeness auto
termination
  by (relation "measure (\<lambda>(m, s). length s)") auto

text \<open>\<open>s.replace(/^["']|["']$/g, '')\<close>: one leading and one trailing quote character.\<close>

definition isQuote :: "char \<Rightarrow> bool" where
  "isQuote c = (c = CHR 0x22 \<or> c = CHR 0x27)"

definition stripQuotes :: "string \<Rightarrow> string" where
  "stripQuotes s =
     (let s1 = (case s of [] \<Rightarrow> [] | c # cs \<Rightarrow> if isQuote c then cs else s)
      in if s1 \<noteq> [] \<and> isQuote (last s1) then butlast s1 else s1)"

text \<open>\<open>s.replace(/\s+/g, ' ')\<close>.\<close>

function collapseWs :: "string \<Rightarrow> string" where
  "collapseWs [] = []"
| "collapseWs (c # cs) =
     (if isSpace c then CHR '' '' # collapseWs (dropWhile isSpace cs) else c # collapseWs cs)"
  by pat_completeness auto
termination
  by (relation "measure length") (auto simp add: length_dropWhile_le less_Suc_eq_le)

definition cleanAudioScript :: "string \<Rightarrow> string" where
  "cleanAudioScript text =
     (let cleanText = trim text;
          cleanText = (if startsWith cleanText fence
                       then removeAll fencePlain (removeAll fenceTagged cleanText)
                       else cleanText);
          cleanText = stripQuotes cleanText
      in trim (collapseWs cleanText))"

definition countWords :: "string \<Rightarrow> nat" where
  "countWords text = length (filter (\<lambda>word. length word > 0) (splitWs text))"

text \<open>\<open>s.lastIndexOf(c)\<close>, which is \<open>-1\<close> when \<open>c\<close> does not occur.\<close>

definition lastIndexOf :: "string \<Rightarrow> char \<Rightarrow> int" where
  "lastIndexOf s c =
     (case find (\<lambda>i. s ! i = c) (rev [0..<length s]) of
        None \<Rightarrow> - 1
      | Some i \<Rightarrow> int i)"

section \<open>GeminiService: the script generator\<close>

text \<open>
  What \<open>generateAudioScript\<close> depends on: \<open>generateContent\<close> is the remote call raced
  against the 30 second timer, followed by reading the text of the first candidate; it
  returns that text or throws.  \<open>stringify\<close> is \<open>JSON.stringify(persona, null, 2)\<close>.
\<close>

record ('w, 'p) scriptDeps =
  generateContent :: "string \<Rightarrow> 'w \<Rightarrow> (js_error + string) \<times> 'w"
  stringify :: "'p \<Rightarrow> string"

definition joinLines :: "string list \<Rightarrow> string" where
  "joinLines ls = concat (case ls of [] \<Rightarrow> [] | l # rest \<Rightarrow> l # map (\<lambda>x. CHR 0x0A # x) rest)"

text \<open>
  \<open>previousWordCount\<close> is optional; the guidance is added when it is truthy, that is,
  present and not zero.
\<close>

definition buildAudioScriptPrompt :: "('w, 'p) scriptDeps \<Rightarrow> 'p \<Rightarrow> nat option \<Rightarrow> string" where
  "buildAudioScriptPrompt G p previousWordCount =
     (let wordCountGuidance =
            (case previousWordCount of
               None \<Rightarrow> []
             | Some n \<Rightarrow>
                 if n \<noteq> 0
                 then CHR 0x0A # ''IMPORTANT: Your previous attempt had '' @ showNat n
                        @ '' words. Please adjust to be between 110-130 words exactly.''
                 else [])
      in joinLines
           [''Convert this persona into a 45-60 second spoken briefing for a designer.'',
            [],
            ''Persona:'',
            stringify G p,
            [],
            ''CRITICAL Requirements:'',
            ''- MAXIMUM 130 words (strictly enforce this limit!)'',
            ''- MAXIMUM 700 characters total'',
            ''- Write in second person (address the designer as '' @ [CHR 0x22] @ ''you''
              @ [CHR 0x22] @ '')'',
            ''- Use plain language without jargon'',
            ''- Be action-oriented (focus on what the designer should do)'',
            ''- Highlight the most important design considerations'',
            ''- Mention any conflicts between the person'' @ [CHR 0x27]
              @ ''s preferences and the brief'',
            ''- Keep it conversational and natural for speech'',
            ''- Target length: 110-130 words (for 45-60 seconds of speech at normal pace)'',
            ''- Start with who this persona is, then move to actionable guidance''
              @ wordCountGuidance,
            [],
            ''Return ONLY the script text with no additional formatting, markdown, or code blocks. Just the raw script that will be spoken.'',
            [],
            ''REMEMBER: Keep it under 130 words and 700 characters!''])"

text \<open>
  The truncation that \<open>generateAudioScript\<close> applies to a text of more than 800
  characters (the same four lines for the first draft and for the regenerated one).
\<close>

definition truncateScript :: "string \<Rightarrow> string" where
  "truncateScript script =
     (let truncated = trim (take 800 script);
          lastPeriod = lastIndexOf truncated (CHR ''.'')
      in if lastPeriod > 600 then take (nat (lastPeriod + 1)) truncated else truncated)"

text \<open>The \<open>catch\<close> block of \<open>generateAudioScript\<close>.\<close>

definition generateAudioScript_catch ::
  "js_error \<Rightarrow> 'w state \<Rightarrow> (js_error + string) \<times> 'w state" where
  "generateAudioScript_catch error s =
     (let s1 = logger ERROR (''Error generating audio script with Gemini: '' @ message error) s
      in if includesStr (message error) ''timeout''
         then (Inl (Error ''Gemini API timeout. Please try again.''), s1)
         else if includesStr (message error) ''API key''
                 \<or> includesStr (message error) ''authentication''
         then (Inl (Error
                 ''Invalid Gemini API credentials. Please check your configuration.''), s1)
         else if includesStr (message error) ''quota''
                 \<or> includesStr (message error) ''rate limit''
         then (Inl (Error ''Gemini API rate limit exceeded. Please try again later.''), s1)
         else (Inl (Error (''Failed to generate audio script: '' @ message error)), s1))"

text \<open>One remote request: the request event is recorded, then the world answers.\<close>

definition request ::
  "('w, 'p) scriptDeps \<Rightarrow> string \<Rightarrow> 'w state \<Rightarrow> (js_error + string) \<times> 'w state" where
  "request G prompt s =
     (case generateContent G prompt (remote s) of
        (r, w) \<Rightarrow> (r, emit (Requested prompt) (s\<lparr>remote := w\<rparr>)))"

definition generateAudioScript ::
  "('w, 'p) scriptDeps \<Rightarrow> 'p \<Rightarrow> 'w state \<Rightarrow> (js_error + string) \<times> 'w state" where
  "generateAudioScript G p s0 =
     (let s = logger LOG ''Generating audio script with Gemini'' s0;
          prompt = buildAudioScriptPrompt G p None
      in case request G prompt s of
           (Inl error, s1) \<Rightarrow> generateAudioScript_catch error s1
         | (Inr text, s1) \<Rightarrow>
             (let script = cleanAudioScript text;
                  wordCount = countWords script;
                  charCount = length script;
                  s2 = logger LOG (''Generated script: '' @ showNat wordCount @ '' words, ''
                         @ showNat charCount @ '' characters'') s1
              in if charCount > 800 then
                   (let s3 = logger WARN (''Script too long ('' @ showNat charCount
                               @ '' chars). Truncating to 800 characters...'') s2;
                        finalScript = truncateScript script;
                        s4 = logger LOG (''Truncated script: ''
                               @ showNat (countWords finalScript) @ '' words, ''
                               @ showNat (length finalScript) @ '' characters'') s3
                    in (Inr finalScript, s4))
                 else if wordCount < 110 \<or> wordCount > 150 then
                   (let s3 = logger WARN (''Generated script has '' @ showNat wordCount
                               @ '' words, expected 110-150. Regenerating...'') s2;
                        retryPrompt = buildAudioScriptPrompt G p (Some wordCount)
                    in case request G retryPrompt s3 of
                         (Inl error, s4) \<Rightarrow> generateAudioScript_catch error s4
                       | (Inr retryText, s4) \<Rightarrow>
                           (let retryScript = cleanAudioScript retryText;
                                retryWordCount = countWords retryScript;
                                retryCharCount = length retryScript;
                                s5 = logger LOG (''Retry generated script with ''
                                       @ showNat retryWordCount @ '' words, ''
                                       @ showNat retryCharCount @ '' characters'') s4
                            in if retryCharCount > 800 then
                                 (Inr (truncateScript retryScript),
                                  logger WARN (''Retry script too long (''
                                    @ showNat retryCharCount @ '' chars). Truncating...'') s5)
                               else
                                 (let finalScript =
                                        (if retryWordCount \<ge> 110 \<and> retryWordCount \<le> 150
                                         then retryScript else script);
                                      finalWordCount = countWords finalScript
                                  in (Inr finalScript,
                                      logger LOG (''Successfully generated audio script with ''
                                        @ showNat finalWordCount @ '' words'') s5))))
                 else
                   (Inr script,
                    logger LOG (''Successfully generated audio script with ''
                      @ showNat wordCount @ '' words'') s2)))"

section \<open>GeminiService: parsing and validating model output\<close>

text \<open>
  The value \<open>JSON.parse\<close> returns.  An array is an object too: the second component of
  \<open>JArray\<close> holds properties added to it by name (none after parsing).  A number is
  represented by its value; only whether it is zero matters below.  A value that may be
  \<open>undefined\<close> is a \<open>json option\<close>.
\<close>

datatype json =
    JNull
  | JBool bool
  | JNumber rat
  | JString string
  | JArray "json list" "(string \<times> json) list"
  | JObject "(string \<times> json) list"

text \<open>
  What the parsers take from the JavaScript engine: \<open>JSON.parse\<close>, and the messages of
  the \<open>TypeError\<close>s it raises when a property of \<open>null\<close> or \<open>undefined\<close> is read and when
  a property is written on a value that cannot hold one (class bodies are strict code).
\<close>

record engine =
  jsonParse :: "string \<Rightarrow> js_error + json"
  readError :: "json option \<Rightarrow> string \<Rightarrow> string"
  writeError :: "json option \<Rightarrow> string \<Rightarrow> string"

fun truthy :: "json option \<Rightarrow> bool" where
  "truthy None = False"
| "truthy (Some JNull) = False"
| "truthy (Some (JBool b)) = b"
| "truthy (Some (JNumber n)) = (n \<noteq> 0)"
| "truthy (Some (JString s)) = (s \<noteq> [])"
| "truthy (Some (JArray xs ps)) = True"
| "truthy (Some (JObject ps)) = True"

fun isArray :: "json option \<Rightarrow> bool" where
  "isArray (Some (JArray xs ps)) = True"
| "isArray v = False"

fun arrayLength :: "json option \<Rightarrow> nat" where
  "arrayLength (Some (JArray xs ps)) = length xs"
| "arrayLength v = 0"

text \<open>
  Reading the property \<open>f\<close>.  The parsers read schema field names only, and none of them
  is a built-in property of a string, number, boolean or array.
\<close>

fun getProp :: "engine \<Rightarrow> json option \<Rightarrow> string \<Rightarrow> js_error + json option" where
  "getProp J None f = Inl (Error (readError J None f))"
| "getProp J (Some JNull) f = Inl (Error (readError J (Some JNull) f))"
| "getProp J (Some (JObject ps)) f = Inr (map_of ps f)"
| "getProp J (Some (JArray xs ps)) f = Inr (map_of ps f)"
| "getProp J (Some v) f = Inr None"

text \<open>Writing the property \<open>f\<close>; the result is the object after the assignment.\<close>

fun setProp :: "engine \<Rightarrow> json option \<Rightarrow> string \<Rightarrow> json \<Rightarrow> js_error + json" where
  "setProp J (Some (JObject ps)) f v = Inr (JObject (AList.update f v ps))"
| "setProp J (Some (JArray xs ps)) f v = Inr (JArray xs (AList.update f v ps))"
| "setProp J x f v = Inl (Error (writeError J x f))"

text \<open>
  The object \<open>parsed\<close> after the object held in its property \<open>f\<close> was changed in place
  to \<open>v\<close>.
\<close>

fun storeProp :: "json \<Rightarrow> string \<Rightarrow> json \<Rightarrow> json" where
  "storeProp (JObject ps) f v = JObject (AList.update f v ps)"
| "storeProp (JArray xs ps) f v = JArray xs (AList.update f v ps)"
| "storeProp x f v = x"

text \<open>\<open>parsed.a.b\<close>\<close>

definition get2 :: "engine \<Rightarrow> json \<Rightarrow> string \<Rightarrow> string \<Rightarrow> js_error + json option" where
  "get2 J parsed a b =
     (case getProp J (Some parsed) a of Inl e \<Rightarrow> Inl e | Inr x \<Rightarrow> getProp J x b)"

text \<open>\<open>!x\<close>, \<open>!Array.isArray(x)\<close> and \<open>x.length === 0\<close>, where reading \<open>x\<close> may throw.\<close>

definition falsy :: "js_error + json option \<Rightarrow> js_error + bool" where
  "falsy r = (case r of Inl e \<Rightarrow> Inl e | Inr v \<Rightarrow> Inr (\<not> truthy v))"

definition notArray :: "js_error + json option \<Rightarrow> js_error + bool" where
  "notArray r = (case r of Inl e \<Rightarrow> Inl e | Inr v \<Rightarrow> Inr (\<not> isArray v))"

definition isEmptyArray :: "js_error + json option \<Rightarrow> js_error + bool" where
  "isEmptyArray r = (case r of Inl e \<Rightarrow> Inl e | Inr v \<Rightarrow> Inr (arrayLength v = 0))"

text \<open>\<open>a || b\<close>: \<open>b\<close> is evaluated only when \<open>a\<close> is false.\<close>

definition orElse :: "js_error + bool \<Rightarrow> js_error + bool \<Rightarrow> js_error + bool" where
  "orElse a b = (case a of Inl e \<Rightarrow> Inl e | Inr t \<Rightarrow> if t then Inr True else b)"

text \<open>\<open>if (c) { throw new Error(msg); }\<close> followed by \<open>rest\<close>.\<close>

definition throwIf :: "js_error + bool \<Rightarrow> string \<Rightarrow> js_error + 'a \<Rightarrow> js_error + 'a" where
  "throwIf c msg rest =
     (case c of Inl e \<Rightarrow> Inl e | Inr t \<Rightarrow> if t then Inl (Error msg) else rest)"

definition andThen :: "js_error + unit \<Rightarrow> js_error + 'a \<Rightarrow> js_error + 'a" where
  "andThen a rest = (case a of Inl e \<Rightarrow> Inl e | Inr u \<Rightarrow> rest)"

text \<open>Removing the code fence around a JSON document.\<close>

definition stripJsonFences :: "string \<Rightarrow> string" where
  "stripJsonFences text =
     (let cleanText = trim text
      in if startsWith cleanText fence
         then removeAll fencePlain (removeAll fenceJson cleanText)
         else cleanText)"

definition validVerbosity :: "string list" where
  "validVerbosity = [''low'', ''medium'', ''high'']"

definition isValidVerbosity :: "json option \<Rightarrow> bool" where
  "isValidVerbosity v = (case v of Some (JString x) \<Rightarrow> x \<in> set validVerbosity | _ \<Rightarrow> False)"

text \<open>
  The verbosity fallback, shared by both parsers: when \<open>communicationStyle.verbosity\<close> is
  not one of the three values it is assigned \<open>medium\<close>; the result is \<open>parsed\<close>.
\<close>

definition repairVerbosity :: "engine \<Rightarrow> json \<Rightarrow> js_error + json" where
  "repairVerbosity J parsed =
     (case getProp J (Some parsed) ''communicationStyle'' of
        Inl e \<Rightarrow> Inl e
      | Inr cs \<Rightarrow>
          (case getProp J cs ''verbosity'' of
             Inl e \<Rightarrow> Inl e
           | Inr v \<Rightarrow>
               if \<not> isValidVerbosity v then
                 (case setProp J cs ''verbosity'' (JString ''medium'') of
                    Inl e \<Rightarrow> Inl e
                  | Inr cs' \<Rightarrow> Inr (storeProp parsed ''communicationStyle'' cs'))
               else Inr parsed))"

subsection \<open>parseProfileAnalysis\<close>

definition profileAnalysisBody :: "engine \<Rightarrow> string \<Rightarrow> js_error + json" where
  "profileAnalysisBody J text =
     (case jsonParse J (stripJsonFences text) of
        Inl e \<Rightarrow> Inl e
      | Inr parsed \<Rightarrow>
          throwIf
            (orElse (falsy (getProp J (Some parsed) ''professionalContext''))
            (orElse (falsy (getProp J (Some parsed) ''communicationStyle''))
            (orElse (falsy (getProp J (Some parsed) ''inferredDesignPreferences''))
                    (falsy (getProp J (Some parsed) ''inferredContentPreferences'')))))
            ''Invalid profile analysis structure''
            (repairVerbosity J parsed))"

definition parseProfileAnalysis ::
  "engine \<Rightarrow> string \<Rightarrow> 'w state \<Rightarrow> (js_error + json) \<times> 'w state" where
  "parseProfileAnalysis J text s =
     (case profileAnalysisBody J text of
        Inr parsed \<Rightarrow> (Inr parsed, s)
      | Inl error \<Rightarrow>
          (Inl (Error (''Failed to parse Gemini response: '' @ message error)),
           logger ERROR (''Error parsing profile analysis: '' @ message error) s))"

subsection \<open>parsePersonaResult\<close>

definition requiredFields :: "string list" where
  "requiredFields =
     [''personaName'', ''summary'', ''professionalContext'', ''communicationStyle'',
      ''designBiases'', ''contentBiases'', ''briefConflicts'', ''designGuidance'']"

text \<open>The loop over \<open>requiredFields\<close>.\<close>

fun checkRequired :: "engine \<Rightarrow> json \<Rightarrow> string list \<Rightarrow> js_error + unit" where
  "checkRequired J parsed [] = Inr ()"
| "checkRequired J parsed (field # others) =
     throwIf (falsy (getProp J (Some parsed) field)) (''Missing required field: '' @ field)
       (checkRequired J parsed others)"

text \<open>The checks of the nested structures up to \<open>briefConflicts\<close>.\<close>

definition nestedChecks :: "engine \<Rightarrow> json \<Rightarrow> js_error + unit" where
  "nestedChecks J parsed =
     throwIf
       (orElse (falsy (get2 J parsed ''professionalContext'' ''role''))
       (orElse (falsy (get2 J parsed ''professionalContext'' ''industry''))
               (falsy (get2 J parsed ''professionalContext'' ''seniority''))))
       ''Invalid professionalContext structure''
    (throwIf
       (orElse (falsy (get2 J parsed ''communicationStyle'' ''tone''))
               (falsy (get2 J parsed ''communicationStyle'' ''verbosity'')))
       ''Invalid communicationStyle structure''
    (throwIf
       (orElse (falsy (get2 J parsed ''designBiases'' ''visualStyle''))
               (falsy (get2 J parsed ''designBiases'' ''uxPriority'')))
       ''Invalid designBiases structure''
    (throwIf
       (orElse (notArray (get2 J parsed ''contentBiases'' ''respondsTo''))
               (notArray (get2 J parsed ''contentBiases'' ''avoids'')))
       ''Invalid contentBiases structure''
    (throwIf
       (notArray (getProp J (Some parsed) ''briefConflicts''))
       ''briefConflicts must be an array''
       (Inr ())))))"

text \<open>The checks of \<open>designGuidance\<close>.\<close>

definition guidanceChecks :: "engine \<Rightarrow> json \<Rightarrow> js_error + unit" where
  "guidanceChecks J parsed =
     throwIf
       (orElse (falsy (get2 J parsed ''designGuidance'' ''do''))
               (falsy (get2 J parsed ''designGuidance'' ''avoid'')))
       ''Invalid designGuidance structure''
    (throwIf
       (orElse (notArray (get2 J parsed ''designGuidance'' ''do''))
               (notArray (get2 J parsed ''designGuidance'' ''avoid'')))
       ''designGuidance.do and designGuidance.avoid must be arrays''
    (throwIf
       (isEmptyArray (get2 J parsed ''designGuidance'' ''do''))
       ''designGuidance.do must contain at least one item''
    (throwIf
       (isEmptyArray (get2 J parsed ''designGuidance'' ''avoid''))
       ''designGuidance.avoid must contain at least one item''
       (Inr ()))))"

definition personaResultBody :: "engine \<Rightarrow> string \<Rightarrow> js_error + json" where
  "personaResultBody J text =
     (case jsonParse J (stripJsonFences text) of
        Inl e \<Rightarrow> Inl e
      | Inr parsed \<Rightarrow>
          andThen (checkRequired J parsed requiredFields)
         (andThen (nestedChecks J parsed)
         (andThen (guidanceChecks J parsed)
                  (repairVerbosity J parsed))))"

definition parsePersonaResult ::
  "engine \<Rightarrow> string \<Rightarrow> 'w state \<Rightarrow> (js_error + json) \<times> 'w state" where
  "parsePersonaResult J text s =
     (case personaResultBody J text of
        Inr parsed \<Rightarrow> (Inr parsed, s)
      | Inl error \<Rightarrow>
          (Inl (Error (''Failed to parse Gemini response: '' @ message error)),
           logger ERROR (''Error parsing persona result: '' @ message error) s))"

section \<open>Reading the trace\<close>

text \<open>
  The shape of cleaned text: every whitespace character is a blank and is not followed
  by another whitespace character.
\<close>

fun tidy :: "string \<Rightarrow> bool" where
  "tidy [] = True"
| "tidy [c] = (isSpace c \<longrightarrow> c = CHR '' '')"
| "tidy (c # d # cs) = ((isSpace c \<longrightarrow> c = CHR '' '' \<and> \<not> isSpace d) \<and> tidy (d # cs))"

text \<open>The prompts sent to the model, in order.\<close>

fun requests :: "event list \<Rightarrow> string list" where
  "requests [] = []"
| "requests (Requested prompt # tr) = prompt # requests tr"
| "requests (ev # tr) = requests tr"

text \<open>How often a wrapped operation was invoked, and which delays were awaited.\<close>

fun isInvocation :: "event \<Rightarrow> bool" where
  "isInvocation (Invoked n) = True"
| "isInvocation ev = False"

definition invocations :: "event list \<Rightarrow> nat" where
  "invocations tr = length (filter isInvocation tr)"

fun delays :: "event list \<Rightarrow> nat list" where
  "delays [] = []"
| "delays (Slept ms # tr) = ms # delays tr"
| "delays (ev # tr) = delays tr"

text \<open>
  A wrapped operation is rejected once with message \<open>msg\<close>: it throws an error with that
  message, the classifier does not mark the error retry-worthy, and the retry executor
  invokes the operation exactly once, awaits nothing and propagates the error.
\<close>

definition rejectedOnce ::
  "(nat \<Rightarrow> 'w \<Rightarrow> 'w) \<Rightarrow> ('w \<Rightarrow> (js_error + 'a) \<times> 'w) \<Rightarrow> string \<Rightarrow> nat \<Rightarrow> 'w state \<Rightarrow>
   string \<Rightarrow> bool" where
  "rejectedOnce timer fn n maxRetries s msg \<longleftrightarrow>
     fst (fn (remote s)) = Inl (Error msg) \<and>
     \<not> isTransientError (Error msg) \<and>
     retryWithBackoff timer fn n maxRetries s =
       (Inl (Error msg),
        s\<lparr>remote := snd (fn (remote s)),
          trace := trace s @
            [Invoked n, Logged ERROR (n @ '' failed after 1 attempt(s): '' @ msg)]\<rparr>)"

section \<open>Scenarios\<close>

text \<open>Concrete operations and worlds on which the theorems below are exercised.\<close>

definition noWait :: "nat \<Rightarrow> 'w \<Rightarrow> 'w" where
  "noWait ms w = w"

text \<open>The world counts the calls made so far; the first two calls time out.\<close>

definition flakyTwice :: "nat \<Rightarrow> (js_error + string) \<times> nat" where
  "flakyTwice k =
     (if k < 2 then Inl (Error ''Gemini API timeout. Please try again.'') else Inr ''ok'',
      Suc k)"

definition badCredentials :: "nat \<Rightarrow> (js_error + string) \<times> nat" where
  "badCredentials k =
     (Inl (Error ''Invalid Gemini API credentials. Please check your configuration.''), Suc k)"

text \<open>The transient markers as the specification spells them.\<close>

definition specTransientMarkers :: "string list" where
  "specTransientMarkers =
     [''timeout'', ''network'', ''connection'', ''connection-refused'', ''host-not-found'',
      ''time-out'', ''socket hang up'', ''temporarily unavailable'']"

definition dnsFailure :: string where
  "dnsFailure = ''Audio synthesis failed: getaddrinfo ENOTFOUND api.elevenlabs.io''"

text \<open>Sample data for the pipeline.\<close>

definition sampleAnalysis :: ProfileAnalysis where
  "sampleAnalysis =
     \<lparr>ProfileAnalysis.professionalContext =
        \<lparr>role = ''Senior Product Designer'', industry = ''Technology'', seniority = ''Senior''\<rparr>,
      ProfileAnalysis.communicationStyle = \<lparr>tone = ''Professional and formal'', verbosity = Medium\<rparr>,
      inferredDesignPreferences =
        \<lparr>visualStyle = ''Clean and minimal'', uxPriority = ''Simplicity and clarity''\<rparr>,
      inferredContentPreferences =
        \<lparr>respondsTo = [''Data-driven insights''], avoids = [''Superficial content'']\<rparr>\<rparr>"

definition samplePersona :: PersonaResult where
  "samplePersona =
     \<lparr>personaName = ''The Pragmatic Enterprise Leader'',
      summary = ''A senior designer who values clarity.'',
      professionalContext =
        \<lparr>role = ''Senior Product Designer'', industry = ''Technology'', seniority = ''Senior''\<rparr>,
      communicationStyle = \<lparr>tone = ''Professional and formal'', verbosity = Medium\<rparr>,
      designBiases =
        \<lparr>visualStyle = ''Clean and minimal'', uxPriority = ''Simplicity and clarity''\<rparr>,
      contentBiases =
        \<lparr>respondsTo = [''Data-driven insights''], avoids = [''Superficial content'']\<rparr>,
      briefConflicts = [''Prefers minimal layouts; the brief asks for dense dashboards''],
      designGuidance =
        \<lparr>guidanceDo = [''Lead with data''], guidanceAvoid = [''Decorative animation'']\<rparr>\<rparr>"

definition sampleScript :: string where
  "sampleScript = ''Meet the Pragmatic Enterprise Leader. Lead with data.''"

definition sampleArticle :: string where
  "sampleArticle = ''Design systems scale when teams share tokens.''"

definition sampleBrief :: string where
  "sampleBrief = ''A dense analytics dashboard''"

text \<open>The world is the wall clock in milliseconds.\<close>

definition clock :: "int \<Rightarrow> int" where
  "clock w = w"

definition waitFor :: "nat \<Rightarrow> int \<Rightarrow> int" where
  "waitFor ms w = w + int ms"

definition encodeNothing :: "8 word list \<Rightarrow> string" where
  "encodeNothing buffer = []"

definition analyzeOk :: "string \<Rightarrow> int \<Rightarrow> (js_error + ProfileAnalysis) \<times> int" where
  "analyzeOk articleText w = (Inr sampleAnalysis, w + 1200)"

definition analyzeMalformed :: "string \<Rightarrow> int \<Rightarrow> (js_error + ProfileAnalysis) \<times> int" where
  "analyzeMalformed articleText w =
     (Inl (Error ''Failed to analyze article text: Failed to parse Gemini response: Invalid profile analysis structure''),
      w + 500)"

definition personaOk ::
  "ProfileAnalysis \<Rightarrow> string \<Rightarrow> int \<Rightarrow> (js_error + PersonaResult) \<times> int" where
  "personaOk analysis designBrief w = (Inr samplePersona, w + 1500)"

definition personaTimeout ::
  "ProfileAnalysis \<Rightarrow> string \<Rightarrow> int \<Rightarrow> (js_error + PersonaResult) \<times> int" where
  "personaTimeout analysis designBrief w =
     (Inl (Error ''Gemini API timeout. Please try again.''), w + 30000)"

definition scriptOk :: "PersonaResult \<Rightarrow> int \<Rightarrow> (js_error + string) \<times> int" where
  "scriptOk p w = (Inr sampleScript, w + 900)"

definition speechRefused :: "string \<Rightarrow> int \<Rightarrow> (js_error + AudioResult) \<times> int" where
  "speechRefused script w =
     (Inl (Error ''Audio synthesis failed: connect ECONNREFUSED 10.0.0.1:443''), w + 100)"

definition audioDown :: "int collaborators" where
  "audioDown =
     \<lparr>gemini_analyzeArticleText = analyzeOk, gemini_generatePersona = personaOk,
      gemini_generateAudioScript = scriptOk, elevenLabs_synthesizeSpeech = speechRefused,
      dateNow = clock, setTimeout = waitFor, toBase64 = encodeNothing\<rparr>"

definition personaTimesOut :: "int collaborators" where
  "personaTimesOut =
     \<lparr>gemini_analyzeArticleText = analyzeOk, gemini_generatePersona = personaTimeout,
      gemini_generateAudioScript = scriptOk, elevenLabs_synthesizeSpeech = speechRefused,
      dateNow = clock, setTimeout = waitFor, toBase64 = encodeNothing\<rparr>"

definition analysisMalformed :: "int collaborators" where
  "analysisMalformed =
     \<lparr>gemini_analyzeArticleText = analyzeMalformed, gemini_generatePersona = personaOk,
      gemini_generateAudioScript = scriptOk, elevenLabs_synthesizeSpeech = speechRefused,
      dateNow = clock, setTimeout = waitFor, toBase64 = encodeNothing\<rparr>"

text \<open>Speech services that reject every request; the world counts the requests.\<close>

definition quotaExceeded :: "string \<Rightarrow> nat \<Rightarrow> (js_error + 8 word list) \<times> nat" where
  "quotaExceeded text k = (Inl (Error ''This request exceeds your quota.''), Suc k)"

definition keyRejected :: "string \<Rightarrow> nat \<Rightarrow> (js_error + 8 word list) \<times> nat" where
  "keyRejected text k = (Inl (Error ''Invalid API key''), Suc k)"

definition twoFifths :: "nat \<Rightarrow> nat" where
  "twoFifths wordCount = (2 * wordCount + 4) div 5"

definition overQuota :: "nat speechDeps" where
  "overQuota = \<lparr>convert = quotaExceeded, estimate = twoFifths\<rparr>"

definition wrongKey :: "nat speechDeps" where
  "wrongKey = \<lparr>convert = keyRejected, estimate = twoFifths\<rparr>"

text \<open>
  A model that answers every prompt with the same draft; the world counts the requests.
  The persona is immaterial here and printed as an empty object.
\<close>

definition answer :: "string \<Rightarrow> string \<Rightarrow> nat \<Rightarrow> (js_error + string) \<times> nat" where
  "answer draft prompt k = (Inr draft, Suc k)"

definition printEmpty :: "unit \<Rightarrow> string" where
  "printEmpty p = ''{}''"

definition draftDeps :: "string \<Rightarrow> (nat, unit) scriptDeps" where
  "draftDeps draft = \<lparr>generateContent = answer draft, stringify = printEmpty\<rparr>"

text \<open>
  Three drafts of 900 characters: one with its only period as character 650, one without
  any period or blank, and one without a period whose 800th character is a blank.
\<close>

definition periodDraft :: string where
  "periodDraft = replicate 649 (CHR ''a'') @ CHR ''.'' # replicate 250 (CHR ''b'')"

definition plainDraft :: string where
  "plainDraft = replicate 900 (CHR ''a'')"

definition spacedDraft :: string where
  "spacedDraft = replicate 799 (CHR ''a'') @ CHR '' '' # replicate 100 (CHR ''b'')"

text \<open>
  An engine whose \<open>JSON.parse\<close> returns the value \<open>v\<close> for the response at hand, with
  the messages V8 gives its \<open>TypeError\<close>s.
\<close>

definition yield :: "json \<Rightarrow> string \<Rightarrow> js_error + json" where
  "yield v text = Inr v"

definition v8ReadError :: "json option \<Rightarrow> string \<Rightarrow> string" where
  "v8ReadError x f =
     ''Cannot read properties of '' @ (if x = None then ''undefined'' else ''null'')
       @ '' (reading '' @ [CHR 0x27] @ f @ [CHR 0x27] @ '')''"

definition v8WriteError :: "json option \<Rightarrow> string \<Rightarrow> string" where
  "v8WriteError x f = ''Cannot create property '' @ [CHR 0x27] @ f @ [CHR 0x27]"

definition parsesTo :: "json \<Rightarrow> engine" where
  "parsesTo v = \<lparr>jsonParse = yield v, readError = v8ReadError, writeError = v8WriteError\<rparr>"

definition response :: string where
  "response = ''(the text of the JSON document)''"

text \<open>
  A persona document with the given verbosity and design guidance, and an analysis
  document with the given communication style.
\<close>

definition styleFields :: "json \<Rightarrow> (string \<times> json) list" where
  "styleFields v = [(''tone'', JString ''Professional and formal''), (''verbosity'', v)]"

definition personaFields :: "json \<Rightarrow> json \<Rightarrow> (string \<times> json) list" where
  "personaFields v guidance =
     [(''personaName'', JString ''The Pragmatic Enterprise Leader''),
      (''summary'', JString ''A senior designer who values clarity.''),
      (''professionalContext'',
         JObject [(''role'', JString ''Senior Product Designer''),
                  (''industry'', JString ''Technology''),
                  (''seniority'', JString ''Senior'')]),
      (''communicationStyle'', JObject (styleFields v)),
      (''designBiases'',
         JObject [(''visualStyle'', JString ''Clean and minimal''),
                  (''uxPriority'', JString ''Simplicity and clarity'')]),
      (''contentBiases'',
         JObject [(''respondsTo'', JArray [JString ''Data-driven insights''] []),
                  (''avoids'', JArray [JString ''Superficial content''] [])]),
      (''briefConflicts'', JArray [] []),
      (''designGuidance'', guidance)]"

definition personaJson :: "json \<Rightarrow> json \<Rightarrow> json" where
  "personaJson v guidance = JObject (personaFields v guidance)"

definition fullGuidance :: json where
  "fullGuidance =
     JObject [(''do'', JArray [JString ''Lead with data''] []),
              (''avoid'', JArray [JString ''Decorative animation''] [])]"

definition guidanceWithoutAvoid :: json where
  "guidanceWithoutAvoid = JObject [(''do'', JArray [JString ''Lead with data''] [])]"

definition guidanceWithoutDo :: json where
  "guidanceWithoutDo = JObject [(''avoid'', JArray [JString ''Decorative animation''] [])]"

definition guidanceEmptyDo :: json where
  "guidanceEmptyDo =
     JObject [(''do'', JArray [] []),
              (''avoid'', JArray [JString ''Decorative animation''] [])]"

definition analysisFields :: "(string \<times> json) list \<Rightarrow> (string \<times> json) list" where
  "analysisFields style =
     [(''professionalContext'',
         JObject [(''role'', JString ''Senior Product Designer''),
                  (''industry'', JString ''Technology''),
                  (''seniority'', JString ''Senior'')]),
      (''communicationStyle'', JObject style),
      (''inferredDesignPreferences'',
         JObject [(''visualStyle'', JString ''Clean and minimal''),
                  (''uxPriority'', JString ''Simplicity and clarity'')]),
      (''inferredContentPreferences'',
         JObject [(''respondsTo'', JArray [JString ''Data-driven insights''] []),
                  (''avoids'', JArray [JString ''Superficial content''] [])])]"

definition analysisJson :: "(string \<times> json) list \<Rightarrow> json" where
  "analysisJson style = JObject (analysisFields style)"

section \<open>Properties\<close>

subsection \<open>Strings\<close>

lemma startsWith_prefix: "startsWith s p \<longleftrightarrow> prefix p s"
  unfolding startsWith_def
  by (metis prefix_def append_eq_conv_conj take_is_prefix)

lemma includesStr_sublist: "includesStr s p \<longleftrightarrow> sublist p s"
  by (induction s) (simp_all add: sublist_Cons_right startsWith_prefix)

lemma showNat_small:
  "showNat (Suc 0) = ''1''" "showNat 2 = ''2''" "showNat (Suc (Suc 0)) = ''2''"
  "showNat 3 = ''3''" "showNat (Suc 2) = ''3''"
  "showNat 1000 = ''1000''" "showNat 2000 = ''2000''"
  by (simp_all add: showNat.simps)

subsection \<open>The retry executor\<close>

lemma invocations_append [simp]: "invocations (a @ b) = invocations a + invocations b"
  by (simp add: invocations_def)

lemma invocations_simps [simp]:
  "invocations [] = 0"
  "invocations (Invoked n # tr) = Suc (invocations tr)"
  "invocations (Logged l m # tr) = invocations tr"
  "invocations (Slept ms # tr) = invocations tr"
  by (simp_all add: invocations_def)

text \<open>
  The loop only appends to the trace, and from \<open>attempt\<close> on it invokes the operation at
  most \<open>maxRetries + 1 - attempt\<close> times.
\<close>

lemma retryLoop_invocations:
  "\<exists>tr. trace (snd (retryLoop timer fn n m a l s)) = trace s @ tr \<and>
        invocations tr \<le> Suc m - a"
proof (induction timer fn n m a l s rule: retryLoop.induct)
  case (1 timer fn n m a l s)
  show ?case
  proof (cases "a \<le> m")
    case False
    then show ?thesis by (subst retryLoop.simps) simp
  next
    case le: True
    obtain r w where f: "fn (remote s) = (r, w)" by (cases "fn (remote s)")
    show ?thesis
    proof (cases r)
      case (Inr v)
      with le f show ?thesis
        by (subst retryLoop.simps) (simp add: emit_def)
    next
      case (Inl e)
      show ?thesis
      proof (cases "a = m \<or> \<not> isTransientError e")
        case True
        with le f Inl show ?thesis
          by (subst retryLoop.simps) (auto simp add: emit_def logger_def)
      next
        case False
        from "1.IH"[OF le f[unfolded Inl, symmetric] refl refl _ refl refl refl] False le f Inl
        show ?thesis
          apply (subst retryLoop.simps)
          apply (clarsimp simp add: emit_def logger_def sleep_def Let_def)
          apply arith
          done
      qed
    qed
  qed
qed

lemma retryWithBackoff_invocations:
  "\<exists>tr. trace (snd (retryWithBackoff timer fn n m s)) = trace s @ tr \<and>
        invocations tr \<le> m + 1"
  using retryLoop_invocations[of timer fn n m 0 None s] by (simp add: retryWithBackoff_def)

lemma retryWithBackoff_fail_twice:
  assumes "fn (remote s) = (Inl e1, w1)" "isTransientError e1"
      and "fn (timer 1000 w1) = (Inl e2, w2)" "isTransientError e2"
      and "fn (timer 2000 w2) = (Inr v, w3)"
  shows "retryWithBackoff timer fn n 2 s =
          (Inr v, s\<lparr>remote := w3, trace := trace s @
             [Invoked n,
              Logged WARN (n @ '' failed (attempt 1/3): '' @ message e1
                             @ ''. Retrying in 1000ms...''),
              Slept 1000,
              Invoked n,
              Logged WARN (n @ '' failed (attempt 2/3): '' @ message e2
                             @ ''. Retrying in 2000ms...''),
              Slept 2000,
              Invoked n]\<rparr>)"
  unfolding retryWithBackoff_def
  apply (subst retryLoop.simps)
  apply (simp add: assms emit_def logger_def sleep_def showNat_small)
  apply (subst retryLoop.simps)
  apply (simp add: assms emit_def logger_def sleep_def showNat_small)
  apply (subst retryLoop.simps)
  apply (simp add: assms emit_def logger_def sleep_def showNat_small)
  done

lemma retryWithBackoff_first_failure_final:
  assumes "fn (remote s) = (Inl e, w)" "\<not> isTransientError e"
  shows "retryWithBackoff timer fn n m s =
          (Inl e, s\<lparr>remote := w, trace := trace s @
             [Invoked n, Logged ERROR (n @ '' failed after 1 attempt(s): '' @ message e)]\<rparr>)"
  unfolding retryWithBackoff_def
  by (subst retryLoop.simps) (simp add: assms emit_def logger_def showNat_small)

text \<open>
  Claim C3.  Whatever the wrapped operation does, \<open>retryWithBackoff\<close> invokes it at most
  \<open>maxRetries + 1\<close> times.  With \<open>maxRetries = 2\<close> and an operation that fails with a
  retryable error on the first two attempts and succeeds on the third, the operation is
  invoked exactly three times, the executor waits \<open>2^0 * 1000 = 1000\<close> ms before the
  second and \<open>2^1 * 1000 = 2000\<close> ms before the third invocation, and the success value is
  returned.
\<close>

theorem retryWithBackoff_attempts:
  "(\<exists>tr. trace (snd (retryWithBackoff timer fn n maxRetries s)) = trace s @ tr \<and>
         invocations tr \<le> maxRetries + 1) \<and>
   (fn (remote s) = (Inl e1, w1) \<and> isTransientError e1 \<and>
    fn (timer 1000 w1) = (Inl e2, w2) \<and> isTransientError e2 \<and>
    fn (timer 2000 w2) = (Inr v, w3) \<longrightarrow>
      retryWithBackoff timer fn n 2 s =
        (Inr v, s\<lparr>remote := w3, trace := trace s @
           [Invoked n,
            Logged WARN (n @ '' failed (attempt 1/3): '' @ message e1
                           @ ''. Retrying in 1000ms...''),
            Slept 1000,
            Invoked n,
            Logged WARN (n @ '' failed (attempt 2/3): '' @ message e2
                           @ ''. Retrying in 2000ms...''),
            Slept 2000,
            Invoked n]\<rparr>))"
proof (intro conjI impI)
  show "\<exists>tr. trace (snd (retryWithBackoff timer fn n maxRetries s)) = trace s @ tr \<and>
          invocations tr \<le> maxRetries + 1"
    by (rule retryWithBackoff_invocations)
next
  assume "fn (remote s) = (Inl e1, w1) \<and> isTransientError e1 \<and>
    fn (timer 1000 w1) = (Inl e2, w2) \<and> isTransientError e2 \<and>
    fn (timer 2000 w2) = (Inr v, w3)"
  then show "retryWithBackoff timer fn n 2 s =
        (Inr v, s\<lparr>remote := w3, trace := trace s @
           [Invoked n,
            Logged WARN (n @ '' failed (attempt 1/3): '' @ message e1
                           @ ''. Retrying in 1000ms...''),
            Slept 1000,
            Invoked n,
            Logged WARN (n @ '' failed (attempt 2/3): '' @ message e2
                           @ ''. Retrying in 2000ms...''),
            Slept 2000,
            Invoked n]\<rparr>)"
    by (intro retryWithBackoff_fail_twice[where ?w1.0 = w1 and ?w2.0 = w2]) simp_all
qed

theorem retryWithBackoff_attempts_witness:
  "isTransientError (Error ''Gemini API timeout. Please try again.'') \<and>
   retryWithBackoff noWait flakyTwice ''Audio script generation'' 2 \<lparr>remote = 0, trace = []\<rparr> =
     (Inr ''ok'', \<lparr>remote = 3, trace =
        [Invoked ''Audio script generation'',
         Logged WARN ''Audio script generation failed (attempt 1/3): Gemini API timeout. Please try again.. Retrying in 1000ms...'',
         Slept 1000,
         Invoked ''Audio script generation'',
         Logged WARN ''Audio script generation failed (attempt 2/3): Gemini API timeout. Please try again.. Retrying in 2000ms...'',
         Slept 2000,
         Invoked ''Audio script generation'']\<rparr>)"
proof -
  have t: "isTransientError (Error ''Gemini API timeout. Please try again.'')"
    by code_simp
  show ?thesis
    using t retryWithBackoff_attempts[where timer = noWait and fn = flakyTwice
        and n = "''Audio script generation''" and s = "\<lparr>remote = 0, trace = []\<rparr>"
        and ?e1.0 = "Error ''Gemini API timeout. Please try again.''" and ?w1.0 = 1
        and ?e2.0 = "Error ''Gemini API timeout. Please try again.''" and ?w2.0 = 2
        and v = "''ok''" and ?w3.0 = 3 and maxRetries = 2]
    by (simp add: flakyTwice_def noWait_def)
qed

text \<open>
  Claim C4, as the code has it.  When the first attempt fails with an error the classifier
  marks non-retryable, the operation is invoked exactly once, nothing is awaited, and the
  operation's own error is propagated unchanged; the attempt count is written to the error
  log only (\<open>failed after 1 attempt(s)\<close>).
\<close>

theorem retryWithBackoff_non_retryable:
  assumes "fn (remote s) = (Inl e, w)" and "\<not> isTransientError e"
  shows "retryWithBackoff timer fn n maxRetries s =
          (Inl e, s\<lparr>remote := w, trace := trace s @
             [Invoked n, Logged ERROR (n @ '' failed after 1 attempt(s): '' @ message e)]\<rparr>)"
  using assms by (rule retryWithBackoff_first_failure_final)

theorem retryWithBackoff_non_retryable_witness:
  "\<not> isTransientError (Error ''Invalid Gemini API credentials. Please check your configuration.'') \<and>
   retryWithBackoff noWait badCredentials ''Persona generation'' 2 \<lparr>remote = 0, trace = []\<rparr> =
     (Inl (Error ''Invalid Gemini API credentials. Please check your configuration.''),
      \<lparr>remote = 1, trace =
        [Invoked ''Persona generation'',
         Logged ERROR ''Persona generation failed after 1 attempt(s): Invalid Gemini API credentials. Please check your configuration.'']\<rparr>)"
proof -
  have t: "\<not> isTransientError (Error ''Invalid Gemini API credentials. Please check your configuration.'')"
    by code_simp
  show ?thesis
    using t retryWithBackoff_non_retryable[where timer = noWait and fn = badCredentials
        and n = "''Persona generation''" and s = "\<lparr>remote = 0, trace = []\<rparr>"
        and e = "Error ''Invalid Gemini API credentials. Please check your configuration.''"
        and w = 1 and maxRetries = 2]
    by (simp add: badCredentials_def)
qed

text \<open>
  Claim C4 as stated asks for the propagated error to be annotated with the attempt count.
  Here the operation fails once with a non-retryable error; the error that comes out is the
  operation's own, and its message does not mention the attempt count \<open>1\<close>.
\<close>

theorem retryWithBackoff_annotation_counterexample:
  "fst (retryWithBackoff noWait badCredentials ''Persona generation'' 2 \<lparr>remote = 0, trace = []\<rparr>) =
     Inl (Error ''Invalid Gemini API credentials. Please check your configuration.'') \<and>
   \<not> includesStr ''Invalid Gemini API credentials. Please check your configuration.'' (showNat 1)"
proof -
  have t: "\<not> isTransientError (Error ''Invalid Gemini API credentials. Please check your configuration.'')"
    by code_simp
  have a: "fst (retryWithBackoff noWait badCredentials ''Persona generation'' 2 \<lparr>remote = 0, trace = []\<rparr>) =
     Inl (Error ''Invalid Gemini API credentials. Please check your configuration.'')"
    by (subst retryWithBackoff_first_failure_final[where w = 1 and
          e = "Error ''Invalid Gemini API credentials. Please check your configuration.''"])
       (simp_all add: badCredentials_def t)
  have b: "\<not> includesStr ''Invalid Gemini API credentials. Please check your configuration.'' (showNat 1)"
    by code_simp
  from a b show ?thesis by blast
qed

subsection \<open>The classifier\<close>

text \<open>
  Claim C5, as the code has it.  An error is retry-worthy exactly when its lower-cased
  message contains one of the transient markers \<open>timeout\<close>, \<open>network\<close>, \<open>connection\<close>,
  \<open>econnrefused\<close>, \<open>enotfound\<close>, \<open>etimedout\<close>, \<open>socket hang up\<close>,
  \<open>temporarily unavailable\<close> and none of the non-retryable markers; a message matching
  both sets is therefore not retry-worthy.
\<close>

theorem isTransientError_markers:
  "isTransientError (Error m) \<longleftrightarrow>
     (\<exists>p \<in> {''timeout'', ''network'', ''connection'', ''econnrefused'', ''enotfound'',
              ''etimedout'', ''socket hang up'', ''temporarily unavailable''}.
         sublist p (toLowerCase m)) \<and>
     (\<forall>p \<in> {''rate limit'', ''quota'', ''authentication'', ''api key'', ''invalid'',
              ''not found'', ''private'', ''inaccessible'', ''validation''}.
         \<not> sublist p (toLowerCase m))"
  unfolding isTransientError_def Let_def list_ex_iff transientPatterns_def
    nonRetryablePatterns_def includesStr_sublist
  by simp

theorem isTransientError_markers_witness:
  "isTransientError (Error ''Connection timeout'') \<and>
   sublist ''timeout'' (toLowerCase ''Connection timeout'') \<and>
   \<not> isTransientError (Error ''Connection timeout: rate limit exceeded'') \<and>
   sublist ''rate limit'' (toLowerCase ''Connection timeout: rate limit exceeded'')"
proof -
  have a: "includesStr (toLowerCase ''Connection timeout'') ''timeout''"
    by code_simp
  have b: "includesStr (toLowerCase ''Connection timeout: rate limit exceeded'') ''rate limit''"
    by code_simp
  have c: "isTransientError (Error ''Connection timeout'')"
    by code_simp
  show ?thesis
    using a b c isTransientError_markers[of "''Connection timeout: rate limit exceeded''"]
    by (simp add: includesStr_sublist)
qed

text \<open>
  Claim C5 as stated lists the markers \<open>connection-refused\<close>, \<open>host-not-found\<close> and
  \<open>time-out\<close>.  A failed DNS lookup is classified retry-worthy although its lower-cased
  message contains none of the transient markers as the claim spells them.
\<close>

theorem isTransientError_markers_counterexample:
  "isTransientError (Error dnsFailure) \<and>
   \<not> list_ex (includesStr (toLowerCase dnsFailure)) specTransientMarkers"
proof -
  have a: "isTransientError (Error dnsFailure)"
    by code_simp
  have b: "\<not> list_ex (includesStr (toLowerCase dnsFailure)) specTransientMarkers"
    by code_simp
  from a b show ?thesis by blast
qed

subsection \<open>The pipeline\<close>

lemma remote_logger [simp]: "remote (logger l m s) = remote s"
  by (simp add: logger_def emit_def)

lemma remote_emit [simp]: "remote (emit ev s) = remote s"
  by (simp add: emit_def)

text \<open>
  Claim C1.  When analysis, persona generation and script generation succeed and the
  audio synthesis call fails after retry handling, \<open>generatePersona\<close> does not throw: it
  returns a result holding the persona and the script that were produced and the empty
  string as \<open>audioUrl\<close>.
\<close>

theorem generatePersona_audio_failure:
  assumes "analysisStep E articleText (logger LOG ''Starting persona generation pipeline'' s0)
             = (Inr analysis, s1)"
      and "personaStep E analysis designBrief s1 = (Inr persona', s2)"
      and "scriptStep E persona' s2 = (Inr script, s3)"
      and "synthesisCall E script s3 = (Inl audioError, s4)"
  shows "generatePersona E articleText designBrief s0 =
           (Inr \<lparr>persona = persona', audioUrl = [], audioScript = script,
                 processingTime = dateNow E (remote s4) - dateNow E (remote s0)\<rparr>,
            logger LOG (''Pipeline complete in ''
                @ showInt (dateNow E (remote s4) - dateNow E (remote s0)) @ ''ms'')
              (logger WARN ''Continuing without audio - text script will be provided''
                (logger ERROR ''Full error object:''
                  (logger ERROR (''Audio synthesis failed: '' @ message audioError) s4))))"
  by (simp add: generatePersona_def pipelineBody_def audioStep_def assms Let_def)

theorem generatePersona_audio_failure_witness:
  "fst (generatePersona audioDown sampleArticle sampleBrief \<lparr>remote = 0, trace = []\<rparr>) =
     Inr \<lparr>persona = samplePersona, audioUrl = [], audioScript = sampleScript,
          processingTime = 6900\<rparr>"
proof -
  let ?s0 = "\<lparr>remote = 0::int, trace = []\<rparr>"
  let ?r1 = "analysisStep audioDown sampleArticle
               (logger LOG ''Starting persona generation pipeline'' ?s0)"
  let ?r2 = "personaStep audioDown sampleAnalysis sampleBrief (snd ?r1)"
  let ?r3 = "scriptStep audioDown samplePersona (snd ?r2)"
  let ?r4 = "synthesisCall audioDown sampleScript (snd ?r3)"
  have f1: "fst ?r1 = Inr sampleAnalysis" by code_simp
  have f2: "fst ?r2 = Inr samplePersona" by code_simp
  have f3: "fst ?r3 = Inr sampleScript" by code_simp
  have f4: "fst ?r4 = Inl (Error ''Audio synthesis failed: connect ECONNREFUSED 10.0.0.1:443'')"
    by code_simp
  have t: "dateNow audioDown (remote (snd ?r4)) = 6900" by code_simp
  have t0: "dateNow audioDown 0 = 0" by code_simp
  have h1: "?r1 = (Inr sampleAnalysis, snd ?r1)" using f1 by (simp add: prod_eq_iff)
  have h2: "?r2 = (Inr samplePersona, snd ?r2)" using f2 by (simp add: prod_eq_iff)
  have h3: "?r3 = (Inr sampleScript, snd ?r3)" using f3 by (simp add: prod_eq_iff)
  have h4: "?r4 = (Inl (Error ''Audio synthesis failed: connect ECONNREFUSED 10.0.0.1:443''), snd ?r4)"
    using f4 by (simp add: prod_eq_iff)
  show ?thesis
    using generatePersona_audio_failure[OF h1 h2 h3 h4] t t0 by simp
qed


text \<open>
  Claim C2, as the code has it.  When one of the first three stages fails after retry
  handling, \<open>generatePersona\<close> returns no result: it throws an error whose message is
  \<open>Persona generation failed: \<close> followed by the message of the stage's error.  The
  elapsed time is written to the error log (\<open>Pipeline failed after ...ms\<close>); it is not
  part of the thrown message.
\<close>

theorem generatePersona_fatal_stage:
  assumes "analysisStep E articleText (logger LOG ''Starting persona generation pipeline'' s0)
             = (Inl e, s') \<or>
           (\<exists>analysis s1.
              analysisStep E articleText (logger LOG ''Starting persona generation pipeline'' s0)
                = (Inr analysis, s1) \<and>
              (personaStep E analysis designBrief s1 = (Inl e, s') \<or>
               (\<exists>persona' s2.
                  personaStep E analysis designBrief s1 = (Inr persona', s2) \<and>
                  scriptStep E persona' s2 = (Inl e, s'))))"
  shows "generatePersona E articleText designBrief s0 =
           (Inl (Error (''Persona generation failed: '' @ message e)),
            logger ERROR (''Pipeline failed after ''
                @ showInt (dateNow E (remote s') - dateNow E (remote s0)) @ ''ms: '' @ message e) s')"
  using assms
  by (auto simp add: generatePersona_def pipelineBody_def Let_def)

theorem generatePersona_fatal_stage_witness:
  "generatePersona personaTimesOut sampleArticle sampleBrief \<lparr>remote = 0, trace = []\<rparr> =
     (Inl (Error ''Persona generation failed: Gemini API timeout. Please try again.''),
      logger ERROR ''Pipeline failed after 94200ms: Gemini API timeout. Please try again.''
        (snd (personaStep personaTimesOut sampleAnalysis sampleBrief
           (snd (analysisStep personaTimesOut sampleArticle
              (logger LOG ''Starting persona generation pipeline'' \<lparr>remote = 0, trace = []\<rparr>))))))"
proof -
  let ?s0 = "\<lparr>remote = 0::int, trace = []\<rparr>"
  let ?r1 = "analysisStep personaTimesOut sampleArticle
               (logger LOG ''Starting persona generation pipeline'' ?s0)"
  let ?r2 = "personaStep personaTimesOut sampleAnalysis sampleBrief (snd ?r1)"
  have f1: "fst ?r1 = Inr sampleAnalysis" by code_simp
  have f2: "fst ?r2 = Inl (Error ''Gemini API timeout. Please try again.'')" by code_simp
  have "dateNow personaTimesOut (remote (snd ?r2)) = 94200" "dateNow personaTimesOut 0 = 0"
    by code_simp+
  then have t: "showInt (dateNow personaTimesOut (remote (snd ?r2)) - dateNow personaTimesOut 0) = ''94200''"
    by (simp add: showInt_def showNat.simps)
  have h1: "?r1 = (Inr sampleAnalysis, snd ?r1)" using f1 by (simp add: prod_eq_iff)
  have h2: "?r2 = (Inl (Error ''Gemini API timeout. Please try again.''), snd ?r2)"
    using f2 by (simp add: prod_eq_iff)
  have "?r1 = (Inl (Error ''Gemini API timeout. Please try again.''), snd ?r2) \<or>
        (\<exists>analysis s1. ?r1 = (Inr analysis, s1) \<and>
           (personaStep personaTimesOut analysis sampleBrief s1
              = (Inl (Error ''Gemini API timeout. Please try again.''), snd ?r2) \<or>
            (\<exists>persona' s2.
               personaStep personaTimesOut analysis sampleBrief s1 = (Inr persona', s2) \<and>
               scriptStep personaTimesOut persona' s2
                 = (Inl (Error ''Gemini API timeout. Please try again.''), snd ?r2))))"
    using h1 h2 by blast
  from generatePersona_fatal_stage[OF this] t show ?thesis by simp
qed

text \<open>
  Claim C2 as stated asks for the thrown message to identify the elapsed time.  Here the
  analysis fails 500 ms after the start; the error log says so, the thrown message does
  not.
\<close>

theorem generatePersona_elapsed_counterexample:
  "fst (generatePersona analysisMalformed sampleArticle sampleBrief \<lparr>remote = 0, trace = []\<rparr>) =
     Inl (Error ''Persona generation failed: Failed to analyze article text: Failed to parse Gemini response: Invalid profile analysis structure'') \<and>
   last (trace (snd (generatePersona analysisMalformed sampleArticle sampleBrief
                       \<lparr>remote = 0, trace = []\<rparr>))) =
     Logged ERROR ''Pipeline failed after 500ms: Failed to analyze article text: Failed to parse Gemini response: Invalid profile analysis structure'' \<and>
   \<not> includesStr ''Persona generation failed: Failed to analyze article text: Failed to parse Gemini response: Invalid profile analysis structure'' ''500''"
proof -
  have a: "fst (generatePersona analysisMalformed sampleArticle sampleBrief \<lparr>remote = 0, trace = []\<rparr>) =
     Inl (Error ''Persona generation failed: Failed to analyze article text: Failed to parse Gemini response: Invalid profile analysis structure'')"
    by code_simp
  have b: "last (trace (snd (generatePersona analysisMalformed sampleArticle sampleBrief
                       \<lparr>remote = 0, trace = []\<rparr>))) =
     Logged ERROR ''Pipeline failed after 500ms: Failed to analyze article text: Failed to parse Gemini response: Invalid profile analysis structure''"
    by code_simp
  have c: "\<not> includesStr ''Persona generation failed: Failed to analyze article text: Failed to parse Gemini response: Invalid profile analysis structure'' ''500''"
    by code_simp
  from a b c show ?thesis by blast
qed

subsection \<open>Speech synthesis under the retry executor\<close>

lemma rejectedOnceI:
  assumes "fn (remote s) = (Inl (Error msg), w)" "\<not> isTransientError (Error msg)"
  shows "rejectedOnce timer fn n maxRetries s msg"
  unfolding rejectedOnce_def
  using retryWithBackoff_first_failure_final[where fn = fn and s = s and e = "Error msg" and w = w
      and timer = timer and n = n and m = maxRetries] assms
  by simp

lemma permanent_messages:
  "\<not> isTransientError (Error ''Script cannot be empty'')"
  "\<not> isTransientError (Error ''ElevenLabs rate limit exceeded. Please try again later.'')"
  "\<not> isTransientError (Error ''ElevenLabs authentication failed. Please check API key configuration.'')"
  by code_simp+

lemma empty_message_tests:
  "\<not> includesStr ''Script cannot be empty'' ''quota''"
  "\<not> includesStr ''Script cannot be empty'' ''rate limit''"
  "\<not> includesStr ''Script cannot be empty'' ''authentication''"
  "\<not> includesStr ''Script cannot be empty'' ''API key''"
  "includesStr ''Script cannot be empty'' ''Script cannot be empty''"
  by code_simp+

text \<open>
  Claim C10.  When the script is empty or blank, \<open>synthesizeSpeech\<close> throws
  \<open>Script cannot be empty\<close>; when the remote call fails with a message containing
  \<open>quota\<close> or \<open>rate limit\<close> it throws \<open>ElevenLabs rate limit exceeded...\<close>; when the
  remote call fails with a message containing \<open>authentication\<close> or \<open>API key\<close> it throws
  \<open>ElevenLabs authentication failed...\<close>.  The classifier marks none of the three
  retry-worthy, so under \<open>retryWithBackoff\<close> the synthesis is invoked exactly once and no
  delay is awaited.
\<close>

theorem synthesizeSpeech_permanent_errors:
  fixes s :: "('w state) state"
  shows
  "(trim script = [] \<longrightarrow>
      rejectedOnce timer (synthesizeSpeech D script) n maxRetries s ''Script cannot be empty'') \<and>
   (trim script \<noteq> [] \<and>
    convert D script (remote (remote s)) = (Inl e, w) \<and>
    (includesStr (message e) ''quota'' \<or> includesStr (message e) ''rate limit'') \<longrightarrow>
      rejectedOnce timer (synthesizeSpeech D script) n maxRetries s
        ''ElevenLabs rate limit exceeded. Please try again later.'') \<and>
   (trim script \<noteq> [] \<and>
    convert D script (remote (remote s)) = (Inl e, w) \<and>
    \<not> (includesStr (message e) ''quota'' \<or> includesStr (message e) ''rate limit'') \<and>
    (includesStr (message e) ''authentication'' \<or> includesStr (message e) ''API key'') \<longrightarrow>
      rejectedOnce timer (synthesizeSpeech D script) n maxRetries s
        ''ElevenLabs authentication failed. Please check API key configuration.'')"
proof (intro conjI impI)
  assume "trim script = []"
  then have "\<exists>t. synthesizeSpeech D script (remote s) = (Inl (Error ''Script cannot be empty''), t)"
    by (simp add: synthesizeSpeech_def synthesizeSpeech_catch_def Let_def empty_message_tests
          del: includesStr.simps)
  then show "rejectedOnce timer (synthesizeSpeech D script) n maxRetries s ''Script cannot be empty''"
    using permanent_messages(1) by (auto intro: rejectedOnceI)
next
  assume a: "trim script \<noteq> [] \<and>
    convert D script (remote (remote s)) = (Inl e, w) \<and>
    (includesStr (message e) ''quota'' \<or> includesStr (message e) ''rate limit'')"
  then have ne: "script \<noteq> []" by (auto simp add: trim_def)
  from a ne have "\<exists>t. synthesizeSpeech D script (remote s) =
      (Inl (Error ''ElevenLabs rate limit exceeded. Please try again later.''), t)"
    by (simp add: synthesizeSpeech_def synthesizeSpeech_catch_def Let_def)
  then show "rejectedOnce timer (synthesizeSpeech D script) n maxRetries s
        ''ElevenLabs rate limit exceeded. Please try again later.''"
    using permanent_messages(2) by (auto intro: rejectedOnceI)
next
  assume a: "trim script \<noteq> [] \<and>
    convert D script (remote (remote s)) = (Inl e, w) \<and>
    \<not> (includesStr (message e) ''quota'' \<or> includesStr (message e) ''rate limit'') \<and>
    (includesStr (message e) ''authentication'' \<or> includesStr (message e) ''API key'')"
  then have ne: "script \<noteq> []" by (auto simp add: trim_def)
  from a ne have "\<exists>t. synthesizeSpeech D script (remote s) =
      (Inl (Error ''ElevenLabs authentication failed. Please check API key configuration.''), t)"
    by (simp add: synthesizeSpeech_def synthesizeSpeech_catch_def Let_def)
  then show "rejectedOnce timer (synthesizeSpeech D script) n maxRetries s
        ''ElevenLabs authentication failed. Please check API key configuration.''"
    using permanent_messages(3) by (auto intro: rejectedOnceI)
qed

theorem synthesizeSpeech_permanent_errors_witness:
  "rejectedOnce noWait (synthesizeSpeech overQuota ''   '') ''Audio synthesis'' 2
     \<lparr>remote = \<lparr>remote = 0, trace = []\<rparr>, trace = []\<rparr> ''Script cannot be empty'' \<and>
   rejectedOnce noWait (synthesizeSpeech overQuota sampleScript) ''Audio synthesis'' 2
     \<lparr>remote = \<lparr>remote = 0, trace = []\<rparr>, trace = []\<rparr>
     ''ElevenLabs rate limit exceeded. Please try again later.'' \<and>
   rejectedOnce noWait (synthesizeSpeech wrongKey sampleScript) ''Audio synthesis'' 2
     \<lparr>remote = \<lparr>remote = 0, trace = []\<rparr>, trace = []\<rparr>
     ''ElevenLabs authentication failed. Please check API key configuration.''"
proof -
  have blank: "trim ''   '' = []" by code_simp
  have nonblank: "trim sampleScript \<noteq> []" by code_simp
  have q: "includesStr ''This request exceeds your quota.'' ''quota''" by code_simp
  have k: "\<not> includesStr ''Invalid API key'' ''quota''" "\<not> includesStr ''Invalid API key'' ''rate limit''"
    "includesStr ''Invalid API key'' ''API key''" by code_simp+
  show ?thesis
    using blank nonblank q k
      synthesizeSpeech_permanent_errors[where D = overQuota and script = "''   ''"
        and timer = noWait and n = "''Audio synthesis''" and maxRetries = 2
        and s = "\<lparr>remote = \<lparr>remote = 0, trace = []\<rparr>, trace = []\<rparr>"]
      synthesizeSpeech_permanent_errors[where D = overQuota and script = sampleScript
        and timer = noWait and n = "''Audio synthesis''" and maxRetries = 2
        and s = "\<lparr>remote = \<lparr>remote = 0, trace = []\<rparr>, trace = []\<rparr>"
        and e = "Error ''This request exceeds your quota.''" and w = 1]
      synthesizeSpeech_permanent_errors[where D = wrongKey and script = sampleScript
        and timer = noWait and n = "''Audio synthesis''" and maxRetries = 2
        and s = "\<lparr>remote = \<lparr>remote = 0, trace = []\<rparr>, trace = []\<rparr>"
        and e = "Error ''Invalid API key''" and w = 1]
    by (simp add: overQuota_def wrongKey_def quotaExceeded_def keyRejected_def
          del: includesStr.simps)
qed

subsection \<open>Cleaned text\<close>

lemma find_rev_upt_last:
  "i < n \<Longrightarrow> P i \<Longrightarrow> (\<forall>j. i < j \<and> j < n \<longrightarrow> \<not> P j) \<Longrightarrow> find P (rev [0..<n]) = Some i"
  by (induction n) (auto simp add: less_Suc_eq)

lemma find_rev_upt_none:
  "(\<forall>j<n. \<not> P j) \<Longrightarrow> find P (rev [0..<n]) = None"
  by (induction n) auto

lemma lastIndexOf_last:
  "i < length s \<Longrightarrow> s ! i = c \<Longrightarrow> (\<forall>j. i < j \<and> j < length s \<longrightarrow> s ! j \<noteq> c) \<Longrightarrow>
   lastIndexOf s c = int i"
  unfolding lastIndexOf_def
  using find_rev_upt_last[of i "length s" "\<lambda>i. s ! i = c"] by simp

lemma find_SomeD': "find P xs = Some x \<Longrightarrow> P x \<and> x \<in> set xs"
  by (induction xs) (auto split: if_splits)

lemma lastIndexOf_cases:
  "lastIndexOf s c = - 1 \<or> (\<exists>i<length s. lastIndexOf s c = int i \<and> s ! i = c)"
proof (cases "find (\<lambda>i. s ! i = c) (rev [0..<length s])")
  case None
  then show ?thesis by (simp add: lastIndexOf_def)
next
  case (Some i)
  then have "s ! i = c \<and> i \<in> set (rev [0..<length s])"
    by (rule find_SomeD')
  with Some show ?thesis by (auto simp add: lastIndexOf_def)
qed

lemma isSpace_blank [simp]: "isSpace (CHR '' '')"
  by (simp add: isSpace_def)

lemma collapseWs_hd:
  "collapseWs s \<noteq> [] \<Longrightarrow> isSpace (hd (collapseWs s)) \<Longrightarrow> s \<noteq> [] \<and> isSpace (hd s)"
  by (cases s) (auto split: if_splits)

lemma dropWhile_hd: "dropWhile P xs \<noteq> [] \<Longrightarrow> \<not> P (hd (dropWhile P xs))"
  by (induction xs) auto

lemma tidy_Cons: "tidy (c # cs) \<longleftrightarrow>
   (isSpace c \<longrightarrow> c = CHR '' '' \<and> (cs \<noteq> [] \<longrightarrow> \<not> isSpace (hd cs))) \<and> tidy cs"
  by (cases cs) auto

lemma tidy_collapseWs: "tidy (collapseWs s)"
proof (induction s rule: collapseWs.induct)
  case 1
  then show ?case by simp
next
  case (2 c cs)
  show ?case
  proof (cases "isSpace c")
    case True
    have "collapseWs (dropWhile isSpace cs) \<noteq> [] \<Longrightarrow>
          \<not> isSpace (hd (collapseWs (dropWhile isSpace cs)))"
      using collapseWs_hd[of "dropWhile isSpace cs"] dropWhile_hd[of isSpace cs] by blast
    with True 2 show ?thesis by (simp add: tidy_Cons)
  next
    case False
    with 2 show ?thesis by (simp add: tidy_Cons)
  qed
qed

lemma tidy_nth_blank: "tidy xs \<Longrightarrow> i < length xs \<Longrightarrow> isSpace (xs ! i) \<Longrightarrow> xs ! i = CHR '' ''"
proof (induction xs arbitrary: i)
  case Nil
  then show ?case by simp
next
  case (Cons a xs)
  then show ?case by (cases i) (auto simp add: tidy_Cons)
qed

lemma tidy_nth_next:
  "tidy xs \<Longrightarrow> Suc i < length xs \<Longrightarrow> isSpace (xs ! i) \<Longrightarrow> \<not> isSpace (xs ! Suc i)"
proof (induction xs arbitrary: i)
  case Nil
  then show ?case by simp
next
  case (Cons a xs)
  show ?case
  proof (cases i)
    case 0
    with Cons.prems show ?thesis by (cases xs) (auto simp add: tidy_Cons)
  next
    case (Suc k)
    with Cons show ?thesis by (auto simp add: tidy_Cons)
  qed
qed

lemma tidy_drop: "tidy xs \<Longrightarrow> tidy (drop n xs)"
proof (induction xs arbitrary: n)
  case Nil
  then show ?case by simp
next
  case (Cons a xs)
  then show ?case by (cases n) (auto simp add: tidy_Cons)
qed

lemma tidy_take: "tidy xs \<Longrightarrow> tidy (take n xs)"
proof (induction xs arbitrary: n)
  case Nil
  then show ?case by simp
next
  case (Cons a xs)
  show ?case
  proof (cases n)
    case 0
    then show ?thesis by simp
  next
    case (Suc k)
    from Cons.prems have "isSpace a \<longrightarrow> a = CHR '' '' \<and> (xs \<noteq> [] \<longrightarrow> \<not> isSpace (hd xs))" "tidy xs"
      by (simp_all add: tidy_Cons)
    with Suc Cons.IH[of k] show ?thesis
      by (cases k) (auto simp add: tidy_Cons hd_take)
  qed
qed

lemma trimEnd_take: "\<exists>k. rev (dropWhile P (rev xs)) = take k xs"
  by (rule exI[of _ "length xs - length (takeWhile P (rev xs))"])
     (simp add: dropWhile_eq_drop rev_drop)

lemma tidy_trim: "tidy xs \<Longrightarrow> tidy (trim xs)"
proof -
  assume t: "tidy xs"
  obtain k where "trim xs = take k (dropWhile isSpace xs)"
    unfolding trim_def using trimEnd_take by blast
  then show ?thesis
    using t by (simp add: dropWhile_eq_drop tidy_drop tidy_take)
qed

lemma trim_no_leading: "trim xs \<noteq> [] \<Longrightarrow> \<not> isSpace (hd (trim xs))"
proof -
  assume ne: "trim xs \<noteq> []"
  obtain k where k: "trim xs = take k (dropWhile isSpace xs)"
    unfolding trim_def using trimEnd_take by blast
  with ne have "dropWhile isSpace xs \<noteq> []" "k \<noteq> 0" by auto
  then have "hd (trim xs) = hd (dropWhile isSpace xs)"
    using k by (cases "dropWhile isSpace xs"; cases k) auto
  with \<open>dropWhile isSpace xs \<noteq> []\<close> show ?thesis
    using dropWhile_hd[of isSpace xs] by simp
qed

lemma cleanAudioScript_tidy: "tidy (cleanAudioScript text)"
  unfolding cleanAudioScript_def Let_def by (intro tidy_trim tidy_collapseWs)

lemma cleanAudioScript_no_leading:
  "cleanAudioScript text \<noteq> [] \<Longrightarrow> \<not> isSpace (hd (cleanAudioScript text))"
  unfolding cleanAudioScript_def Let_def by (rule trim_no_leading)

lemma dropWhile_id: "xs \<noteq> [] \<Longrightarrow> \<not> P (hd xs) \<Longrightarrow> dropWhile P xs = xs"
  by (cases xs) auto

lemma trim_take_tidy:
  assumes t: "tidy script" and lead: "script \<noteq> [] \<Longrightarrow> \<not> isSpace (hd script)"
      and n: "n < length script"
  shows "trim (take (Suc n) script) =
           (if script ! n = CHR '' '' then take n script else take (Suc n) script)"
proof -
  from n have ne: "script \<noteq> []" by auto
  have front: "dropWhile isSpace (take (Suc n) script) = take (Suc n) script"
    using ne lead by (intro dropWhile_id) (auto simp add: hd_take)
  have split: "take (Suc n) script = take n script @ [script ! n]"
    using n by (rule take_Suc_conv_app_nth)
  show ?thesis
  proof (cases "script ! n = CHR '' ''")
    case False
    with t n have "\<not> isSpace (script ! n)" using tidy_nth_blank by blast
    then show ?thesis using False front by (simp add: trim_def split)
  next
    case True
    then have sp: "isSpace (script ! n)" by simp
    have "n \<noteq> 0"
    proof
      assume "n = 0"
      with sp ne have "isSpace (hd script)" by (simp add: hd_conv_nth)
      with lead ne show False by simp
    qed
    then obtain k where k: "n = Suc k" by (cases n) auto
    with n have split2: "take n script = take k script @ [script ! k]"
      by (simp add: take_Suc_conv_app_nth)
    have "\<not> isSpace (script ! k)"
    proof
      assume "isSpace (script ! k)"
      with t n k have "\<not> isSpace (script ! Suc k)" using tidy_nth_next by blast
      with sp k show False by simp
    qed
    then have "dropWhile isSpace (rev (take (Suc n) script)) = rev (take n script)"
      using sp by (simp add: split split2)
    then show ?thesis using True front by (simp add: trim_def)
  qed
qed

lemma truncateScript_cleaned:
  assumes len: "length (cleanAudioScript text) > 800"
  shows "trim (take 800 (cleanAudioScript text)) =
           (if cleanAudioScript text ! 799 = CHR '' '' then take 799 (cleanAudioScript text)
            else take 800 (cleanAudioScript text))"
  using trim_take_tidy[of "cleanAudioScript text" 799] len
    cleanAudioScript_tidy[of "text"] cleanAudioScript_no_leading[of "text"]
  by simp

lemma truncateScript_no_period:
  assumes len: "length (cleanAudioScript text) > 800"
      and none: "\<forall>i. 600 < i \<and> i < 800 \<longrightarrow> cleanAudioScript text ! i \<noteq> CHR ''.''"
  shows "truncateScript (cleanAudioScript text) =
           (if cleanAudioScript text ! 799 = CHR '' '' then take 799 (cleanAudioScript text)
            else take 800 (cleanAudioScript text))"
proof -
  let ?s = "cleanAudioScript text"
  let ?t = "trim (take 800 ?s)"
  have tk: "?t = (if ?s ! 799 = CHR '' '' then take 799 ?s else take 800 ?s)"
    using len by (rule truncateScript_cleaned)
  have "\<not> lastIndexOf ?t (CHR ''.'') > 600"
  proof
    assume gt: "lastIndexOf ?t (CHR ''.'') > 600"
    with lastIndexOf_cases[of ?t "CHR ''.''"]
    obtain i where i: "i < length ?t" "lastIndexOf ?t (CHR ''.'') = int i" "?t ! i = CHR ''.''"
      by auto
    with gt have "600 < i" by simp
    moreover from i(1) tk have "i < 800" by (auto split: if_splits)
    moreover from i tk have "?s ! i = CHR ''.''" by (auto split: if_splits)
    ultimately show False using none by blast
  qed
  then show ?thesis unfolding truncateScript_def Let_def using tk by simp
qed

lemma truncateScript_last_period:
  assumes len: "length (cleanAudioScript text) > 800"
      and i: "600 < i" "i < 800" "cleanAudioScript text ! i = CHR ''.''"
      and last: "\<forall>j. i < j \<and> j < 800 \<longrightarrow> cleanAudioScript text ! j \<noteq> CHR ''.''"
  shows "truncateScript (cleanAudioScript text) = take (Suc i) (cleanAudioScript text)"
proof -
  let ?s = "cleanAudioScript text"
  let ?t = "trim (take 800 ?s)"
  have tk: "?t = (if ?s ! 799 = CHR '' '' then take 799 ?s else take 800 ?s)"
    using len by (rule truncateScript_cleaned)
  have il: "i < length ?t"
  proof (cases "?s ! 799 = CHR '' ''")
    case True
    with i have "i \<noteq> 799" by auto
    with i len tk True show ?thesis by simp
  next
    case False
    with i len tk show ?thesis by simp
  qed
  have nth: "\<And>j. j < length ?t \<Longrightarrow> ?t ! j = ?s ! j \<and> j < 800"
    using tk len by (auto split: if_splits)
  have "lastIndexOf ?t (CHR ''.'') = int i"
    using il nth i last by (intro lastIndexOf_last) auto
  moreover have "take (Suc i) ?t = take (Suc i) ?s"
    using il tk by (auto split: if_splits simp add: min_def)
  ultimately show ?thesis
    unfolding truncateScript_def Let_def using i by (simp add: nat_add_distrib)
qed

lemma requests_append [simp]: "requests (a @ b) = requests a @ requests b"
  by (induction a rule: requests.induct) simp_all

lemma generateAudioScript_long:
  assumes "generateContent G (buildAudioScriptPrompt G p None) (remote s) = (Inr text, w)"
      and "length (cleanAudioScript text) > 800"
  shows "fst (generateAudioScript G p s) = Inr (truncateScript (cleanAudioScript text))"
  using assms
  by (simp add: generateAudioScript_def request_def Let_def)

lemma generateAudioScript_long_requests:
  assumes "generateContent G (buildAudioScriptPrompt G p None) (remote s) = (Inr text, w)"
      and "length (cleanAudioScript text) > 800"
  shows "requests (trace (snd (generateAudioScript G p s))) =
           requests (trace s) @ [buildAudioScriptPrompt G p None]"
  using assms
  by (simp add: generateAudioScript_def request_def Let_def logger_def emit_def)

lemma tidy_collapseWs_id: "tidy s \<Longrightarrow> collapseWs s = s"
proof (induction s rule: collapseWs.induct)
  case 1
  then show ?case by simp
next
  case (2 c cs)
  then show ?case
    by (cases cs) (auto simp add: tidy_Cons)
qed

lemma trim_id: "s \<noteq> [] \<Longrightarrow> \<not> isSpace (hd s) \<Longrightarrow> \<not> isSpace (last s) \<Longrightarrow> trim s = s"
  unfolding trim_def
  by (simp add: dropWhile_id hd_rev)

lemma not_startsWith_fence: "s \<noteq> [] \<Longrightarrow> hd s \<noteq> CHR 0x60 \<Longrightarrow> \<not> startsWith s fence"
  by (cases s) (auto simp add: startsWith_def fence_def)

lemma stripQuotes_id: "s \<noteq> [] \<Longrightarrow> \<not> isQuote (hd s) \<Longrightarrow> \<not> isQuote (last s) \<Longrightarrow> stripQuotes s = s"
  by (cases s) (auto simp add: stripQuotes_def)

lemma cleanAudioScript_id:
  assumes "tidy s" "s \<noteq> []" "\<not> isSpace (hd s)" "\<not> isSpace (last s)"
    "\<not> isQuote (hd s)" "\<not> isQuote (last s)" "hd s \<noteq> CHR 0x60"
  shows "cleanAudioScript s = s"
  using assms
  by (simp add: cleanAudioScript_def Let_def trim_id not_startsWith_fence stripQuotes_id
        tidy_collapseWs_id)

lemma tidy_append_solid: "\<forall>c\<in>set xs. \<not> isSpace c \<Longrightarrow> tidy ys \<Longrightarrow> tidy (xs @ ys)"
  by (induction xs) (auto simp add: tidy_Cons)

lemma tidy_solid: "\<forall>c\<in>set xs. \<not> isSpace c \<Longrightarrow> tidy xs"
  using tidy_append_solid[of xs "[]"] by simp

lemma letters:
  "\<not> isSpace (CHR ''a'')" "\<not> isSpace (CHR ''b'')" "\<not> isSpace (CHR ''.'')"
  "\<not> isQuote (CHR ''a'')" "\<not> isQuote (CHR ''b'')"
  by (simp_all add: isSpace_def isQuote_def)

lemma periodDraft_clean: "cleanAudioScript periodDraft = periodDraft"
proof (rule cleanAudioScript_id)
  show "tidy periodDraft"
    unfolding periodDraft_def by (rule tidy_solid) (auto simp add: letters)
qed (simp_all add: periodDraft_def letters hd_append last_append)

subsection \<open>The script generator\<close>

text \<open>
  Claim C6, as the code has it.  When the cleaned first draft has more than 800
  characters, \<open>generateAudioScript\<close> returns at once: the initial prompt is the only
  request it sends.  If a period occurs at an offset greater than 600 within the first 800
  characters, the result is the draft up to and including the last such period.
  Otherwise the result is the first 800 characters with trailing whitespace removed: the
  first 800 characters, or the first 799 when the 800th character is a blank.
\<close>

theorem generateAudioScript_truncates:
  assumes "generateContent G (buildAudioScriptPrompt G p None) (remote s) = (Inr text, w)"
      and "length (cleanAudioScript text) > 800"
  shows "(\<forall>i. 600 < i \<and> i < 800 \<and> cleanAudioScript text ! i = CHR ''.'' \<and>
              (\<forall>j. i < j \<and> j < 800 \<longrightarrow> cleanAudioScript text ! j \<noteq> CHR ''.'') \<longrightarrow>
              fst (generateAudioScript G p s) = Inr (take (Suc i) (cleanAudioScript text))) \<and>
         ((\<forall>i. 600 < i \<and> i < 800 \<longrightarrow> cleanAudioScript text ! i \<noteq> CHR ''.'') \<longrightarrow>
              fst (generateAudioScript G p s) =
                Inr (if cleanAudioScript text ! 799 = CHR '' ''
                     then take 799 (cleanAudioScript text)
                     else take 800 (cleanAudioScript text))) \<and>
         requests (trace (snd (generateAudioScript G p s))) =
           requests (trace s) @ [buildAudioScriptPrompt G p None]"
  using generateAudioScript_long[OF assms] truncateScript_no_period[OF assms(2)]
    truncateScript_last_period[OF assms(2)] generateAudioScript_long_requests[OF assms]
  by simp

lemma plainDraft_clean: "cleanAudioScript plainDraft = plainDraft"
proof (rule cleanAudioScript_id)
  show "tidy plainDraft"
    unfolding plainDraft_def by (rule tidy_solid) (auto simp add: letters)
qed (simp_all add: plainDraft_def letters)

lemma spacedDraft_clean: "cleanAudioScript spacedDraft = spacedDraft"
proof (rule cleanAudioScript_id)
  have "tidy (CHR '' '' # replicate 100 (CHR ''b''))"
    by (simp add: tidy_Cons tidy_solid letters)
  then show "tidy spacedDraft"
    unfolding spacedDraft_def by (intro tidy_append_solid) (auto simp add: letters)
qed (simp_all add: spacedDraft_def letters hd_append last_append)

theorem generateAudioScript_truncates_witness:
  "fst (generateAudioScript (draftDeps periodDraft) () \<lparr>remote = 0, trace = []\<rparr>) =
     Inr (replicate 649 (CHR ''a'') @ ''.'') \<and>
   fst (generateAudioScript (draftDeps plainDraft) () \<lparr>remote = 0, trace = []\<rparr>) =
     Inr (replicate 800 (CHR ''a'')) \<and>
   requests (trace (snd (generateAudioScript (draftDeps plainDraft) ()
                           \<lparr>remote = 0, trace = []\<rparr>))) =
     [buildAudioScriptPrompt (draftDeps plainDraft) () None]"
proof -
  have g1: "generateContent (draftDeps periodDraft)
              (buildAudioScriptPrompt (draftDeps periodDraft) () None)
              (remote \<lparr>remote = 0, trace = []\<rparr>) = (Inr periodDraft, 1)"
    by (simp add: draftDeps_def answer_def)
  have l1: "length (cleanAudioScript periodDraft) > 800"
    by (simp add: periodDraft_clean) (simp add: periodDraft_def)
  have p1: "600 < (649::nat) \<and> (649::nat) < 800 \<and> cleanAudioScript periodDraft ! 649 = CHR ''.'' \<and>
            (\<forall>j. 649 < j \<and> j < 800 \<longrightarrow> cleanAudioScript periodDraft ! j \<noteq> CHR ''.'')"
    by (simp add: periodDraft_clean) (auto simp add: periodDraft_def nth_append nth_Cons')
  have r1: "take (Suc 649) (cleanAudioScript periodDraft) = replicate 649 (CHR ''a'') @ ''.''"
    by (simp add: periodDraft_clean) (simp add: periodDraft_def)
  have g2: "generateContent (draftDeps plainDraft)
              (buildAudioScriptPrompt (draftDeps plainDraft) () None)
              (remote \<lparr>remote = 0, trace = []\<rparr>) = (Inr plainDraft, 1)"
    by (simp add: draftDeps_def answer_def)
  have l2: "length (cleanAudioScript plainDraft) > 800"
    by (simp add: plainDraft_clean) (simp add: plainDraft_def)
  have p2: "\<forall>i. 600 < i \<and> i < 800 \<longrightarrow> cleanAudioScript plainDraft ! i \<noteq> CHR ''.''"
    by (simp add: plainDraft_clean) (simp add: plainDraft_def)
  have r2: "(if cleanAudioScript plainDraft ! 799 = CHR '' ''
             then take 799 (cleanAudioScript plainDraft)
             else take 800 (cleanAudioScript plainDraft)) = replicate 800 (CHR ''a'')"
    by (simp add: plainDraft_clean) (simp add: plainDraft_def)
  from generateAudioScript_truncates[OF g1 l1, THEN conjunct1, THEN spec, THEN mp, OF p1] r1
  have a: "fst (generateAudioScript (draftDeps periodDraft) () \<lparr>remote = 0, trace = []\<rparr>) =
     Inr (replicate 649 (CHR ''a'') @ ''.'')"
    by simp
  from generateAudioScript_truncates[OF g2 l2, THEN conjunct2, THEN conjunct1, THEN mp, OF p2] r2
  have b: "fst (generateAudioScript (draftDeps plainDraft) () \<lparr>remote = 0, trace = []\<rparr>) =
     Inr (replicate 800 (CHR ''a''))"
    by simp
  from generateAudioScript_truncates[OF g2 l2, THEN conjunct2, THEN conjunct2]
  have c: "requests (trace (snd (generateAudioScript (draftDeps plainDraft) ()
                           \<lparr>remote = 0, trace = []\<rparr>))) =
     [buildAudioScriptPrompt (draftDeps plainDraft) () None]"
    by simp
  from a b c show ?thesis by blast
qed

text \<open>
  Claim C6 as stated promises exactly the first 800 characters when no period follows
  offset 600.  This draft of 900 characters has no period and a blank as its 800th
  character; the result is its first 799 characters.
\<close>

theorem generateAudioScript_hard_cut_counterexample:
  "length (cleanAudioScript spacedDraft) = 900 \<and>
   CHR ''.'' \<notin> set (cleanAudioScript spacedDraft) \<and>
   fst (generateAudioScript (draftDeps spacedDraft) () \<lparr>remote = 0, trace = []\<rparr>) =
     Inr (replicate 799 (CHR ''a'')) \<and>
   take 800 (cleanAudioScript spacedDraft) \<noteq> replicate 799 (CHR ''a'')"
proof -
  have g: "generateContent (draftDeps spacedDraft)
              (buildAudioScriptPrompt (draftDeps spacedDraft) () None)
              (remote \<lparr>remote = 0, trace = []\<rparr>) = (Inr spacedDraft, 1)"
    by (simp add: draftDeps_def answer_def)
  have l: "length (cleanAudioScript spacedDraft) = 900"
    by (simp add: spacedDraft_clean) (simp add: spacedDraft_def)
  have n: "CHR ''.'' \<notin> set (cleanAudioScript spacedDraft)"
    by (simp add: spacedDraft_clean) (simp add: spacedDraft_def)
  have sp: "cleanAudioScript spacedDraft ! 799 = CHR '' ''"
    by (simp add: spacedDraft_clean) (simp add: spacedDraft_def nth_append)
  have t: "take 799 (cleanAudioScript spacedDraft) = replicate 799 (CHR ''a'')"
    by (simp add: spacedDraft_clean) (simp add: spacedDraft_def)
  have none: "\<forall>i. 600 < i \<and> i < 800 \<longrightarrow> cleanAudioScript spacedDraft ! i \<noteq> CHR ''.''"
    by (simp add: spacedDraft_clean) (auto simp add: spacedDraft_def nth_append nth_Cons')
  have l800: "length (cleanAudioScript spacedDraft) > 800" using l by simp
  have "truncateScript (cleanAudioScript spacedDraft) = replicate 799 (CHR ''a'')"
    using truncateScript_no_period[OF l800 none] sp t by simp
  moreover have "fst (generateAudioScript (draftDeps spacedDraft) () \<lparr>remote = 0, trace = []\<rparr>)
      = Inr (truncateScript (cleanAudioScript spacedDraft))"
    using generateAudioScript_long[OF g] l by simp
  moreover have "take 800 (cleanAudioScript spacedDraft) \<noteq> replicate 799 (CHR ''a'')"
  proof
    assume "take 800 (cleanAudioScript spacedDraft) = replicate 799 (CHR ''a'')"
    then have "length (take 800 (cleanAudioScript spacedDraft)) = length (replicate 799 (CHR ''a''))"
      by simp
    with l show False by simp
  qed
  ultimately show ?thesis using l n by simp
qed

text \<open>
  A cleaned draft of at most 800 characters whose word count is outside 110..150 leads to
  exactly one further request, built from the previous word count.  If the regenerated
  text has at most 800 characters, it is returned exactly when its word count is within
  110..150, and the first draft is returned otherwise.
\<close>

lemma generateAudioScript_regenerates:
  assumes "generateContent G (buildAudioScriptPrompt G p None) (remote s) = (Inr text, w1)"
      and "length (cleanAudioScript text) \<le> 800"
      and "countWords (cleanAudioScript text) < 110 \<or> countWords (cleanAudioScript text) > 150"
      and "generateContent G
             (buildAudioScriptPrompt G p (Some (countWords (cleanAudioScript text)))) w1
             = (Inr retryText, w2)"
      and "length (cleanAudioScript retryText) \<le> 800"
  shows "fst (generateAudioScript G p s) =
           Inr (if 110 \<le> countWords (cleanAudioScript retryText)
                     \<and> countWords (cleanAudioScript retryText) \<le> 150
                then cleanAudioScript retryText else cleanAudioScript text) \<and>
         requests (trace (snd (generateAudioScript G p s))) =
           requests (trace s) @
             [buildAudioScriptPrompt G p None,
              buildAudioScriptPrompt G p (Some (countWords (cleanAudioScript text)))]"
  using assms
  by (simp add: generateAudioScript_def request_def Let_def logger_def emit_def)

text \<open>
  The prompt built from a previous word count other than zero states that count; the one
  built from the count zero is the initial prompt.
\<close>

lemma buildAudioScriptPrompt_zero:
  "buildAudioScriptPrompt G p (Some 0) = buildAudioScriptPrompt G p None"
  by (simp add: buildAudioScriptPrompt_def)

lemma sublist_concat: "xs \<in> set xss \<Longrightarrow> sublist xs (concat xss)"
proof (induction xss)
  case Nil
  then show ?case by simp
next
  case (Cons a xss)
  then show ?case
    by (auto simp add: sublist_append intro: sublist_appendI)
qed

lemma buildAudioScriptPrompt_feedback:
  assumes "n \<noteq> 0"
  shows "includesStr (buildAudioScriptPrompt G p (Some n))
           (''Your previous attempt had '' @ showNat n @ '' words'')"
proof -
  let ?needle = "''Your previous attempt had '' @ showNat n @ '' words''"
  let ?line = "CHR 0x0A # ''- Start with who this persona is, then move to actionable guidance''
      @ CHR 0x0A # ''IMPORTANT: Your previous attempt had '' @ showNat n
      @ '' words. Please adjust to be between 110-130 words exactly.''"
  have "?line = (CHR 0x0A # ''- Start with who this persona is, then move to actionable guidance''
      @ CHR 0x0A # ''IMPORTANT: '') @ ?needle @ ''. Please adjust to be between 110-130 words exactly.''"
    by simp
  then have a: "sublist ?needle ?line"
    unfolding sublist_def by blast
  have b: "sublist ?line (buildAudioScriptPrompt G p (Some n))"
    unfolding buildAudioScriptPrompt_def joinLines_def Let_def
    using assms by (intro sublist_concat) simp
  from a b show ?thesis
    unfolding includesStr_sublist by (rule sublist_order.order_trans)
qed

lemma cleanAudioScript_empty: "cleanAudioScript [] = []"
  by (simp add: cleanAudioScript_def trim_def startsWith_def fence_def stripQuotes_def)

lemma countWords_empty: "countWords [] = 0"
  by (simp add: countWords_def)

text \<open>
  Claim C7 at a draft without words.  The model answers with the empty text: the cleaned
  draft has 0 words and 0 characters, so a regeneration is requested, but the second
  prompt is the first prompt again and carries no word count.
\<close>

theorem generateAudioScript_empty_draft:
  "countWords (cleanAudioScript []) = 0 \<and>
   requests (trace (snd (generateAudioScript (draftDeps []) () \<lparr>remote = 0, trace = []\<rparr>))) =
     [buildAudioScriptPrompt (draftDeps []) () None,
      buildAudioScriptPrompt (draftDeps []) () None] \<and>
   \<not> includesStr (buildAudioScriptPrompt (draftDeps []) () None) ''previous attempt''"
proof -
  have c: "countWords (cleanAudioScript []) = 0"
    by (simp add: cleanAudioScript_empty countWords_empty)
  have r: "requests (trace (snd (generateAudioScript (draftDeps []) () \<lparr>remote = 0, trace = []\<rparr>))) =
     requests (trace \<lparr>remote = 0::nat, trace = []\<rparr>) @
     [buildAudioScriptPrompt (draftDeps []) () None,
      buildAudioScriptPrompt (draftDeps []) () (Some (countWords (cleanAudioScript [])))]"
    by (rule generateAudioScript_regenerates[where ?w1.0 = 1 and ?w2.0 = 2 and retryText = "[]",
          THEN conjunct2])
       (simp_all add: cleanAudioScript_empty countWords_empty draftDeps_def answer_def)
  have n: "\<not> includesStr (buildAudioScriptPrompt (draftDeps []) () None) ''previous attempt''"
    by (simp add: buildAudioScriptPrompt_def joinLines_def draftDeps_def printEmpty_def
          startsWith_def)
  from c r n show ?thesis
    by (simp add: buildAudioScriptPrompt_zero)
qed

subsection \<open>The parsers\<close>

lemma throwIf_Inr: "throwIf c m rest = Inr v \<longleftrightarrow> c = Inr False \<and> rest = Inr v"
  by (auto simp add: throwIf_def split: sum.splits)

lemma andThen_Inr: "andThen a rest = Inr v \<longleftrightarrow> a = Inr () \<and> rest = Inr v"
  by (auto simp add: andThen_def split: sum.splits)

lemma orElse_False: "orElse a b = Inr False \<longleftrightarrow> a = Inr False \<and> b = Inr False"
  by (auto simp add: orElse_def split: sum.splits)

lemma falsy_False: "falsy r = Inr False \<longleftrightarrow> (\<exists>v. r = Inr v \<and> truthy v)"
  by (auto simp add: falsy_def split: sum.splits)

lemma getProp_sibling: "getProp J x b = Inr v \<Longrightarrow> \<exists>u. getProp J x c = Inr u"
  by (cases "(J, x, b)" rule: getProp.cases) auto

lemma get2_sibling: "get2 J parsed a b = Inr v \<Longrightarrow> \<exists>u. get2 J parsed a c = Inr u"
  unfolding get2_def
  by (cases "getProp J (Some parsed) a") (auto dest: getProp_sibling)

lemma guidance_without_avoid:
  assumes "get2 J parsed ''designGuidance'' ''avoid'' = Inr None"
  shows "guidanceChecks J parsed = Inl (Error ''Invalid designGuidance structure'')"
proof -
  obtain u where "get2 J parsed ''designGuidance'' ''do'' = Inr u"
    using get2_sibling[OF assms] by blast
  with assms show ?thesis
    by (simp add: guidanceChecks_def throwIf_def orElse_def falsy_def)
qed

lemma guidance_empty_do:
  assumes "get2 J parsed ''designGuidance'' ''do'' = Inr (Some (JArray [] ps))"
  shows "isl (guidanceChecks J parsed)"
proof -
  obtain u where "get2 J parsed ''designGuidance'' ''avoid'' = Inr u"
    using get2_sibling[OF assms] by blast
  with assms show ?thesis
    by (simp add: guidanceChecks_def throwIf_def orElse_def falsy_def notArray_def
          isEmptyArray_def)
qed

lemma personaResultBody_guidance_fails:
  assumes "jsonParse J (stripJsonFences text) = Inr parsed" "isl (guidanceChecks J parsed)"
  shows "isl (personaResultBody J text)"
  using assms
  by (auto simp add: personaResultBody_def andThen_def isl_def split: sum.splits)

lemma parsePersonaResult_isl: "isl (fst (parsePersonaResult J text s)) = isl (personaResultBody J text)"
  by (simp add: parsePersonaResult_def split: sum.splits)

lemma getProp_sibling_error: "getProp J x b = Inl e \<Longrightarrow> \<exists>e'. getProp J x c = Inl e'"
  by (cases "(J, x, b)" rule: getProp.cases) auto

lemma get2_sibling_error: "get2 J parsed a b = Inl e \<Longrightarrow> \<exists>e'. get2 J parsed a c = Inl e'"
  unfolding get2_def
  by (cases "getProp J (Some parsed) a") (auto dest: getProp_sibling_error)

lemma guidance_without_do:
  assumes "get2 J parsed ''designGuidance'' ''do'' = Inr None"
  shows "guidanceChecks J parsed = Inl (Error ''Invalid designGuidance structure'')"
  using assms by (simp add: guidanceChecks_def throwIf_def orElse_def falsy_def)

lemma guidance_no_avoid_value:
  assumes "\<forall>v. get2 J parsed ''designGuidance'' ''avoid'' \<noteq> Inr (Some v)"
  shows "isl (guidanceChecks J parsed)"
proof (cases "get2 J parsed ''designGuidance'' ''avoid''")
  case (Inl e)
  then obtain e' where "get2 J parsed ''designGuidance'' ''do'' = Inl e'"
    using get2_sibling_error by blast
  then show ?thesis
    by (simp add: guidanceChecks_def throwIf_def orElse_def falsy_def)
next
  case (Inr u)
  with assms have "get2 J parsed ''designGuidance'' ''avoid'' = Inr None"
    by (cases u) auto
  then show ?thesis by (simp add: guidance_without_avoid)
qed

lemma checkRequired_append:
  "checkRequired J parsed (xs @ ys) =
     andThen (checkRequired J parsed xs) (checkRequired J parsed ys)"
  by (induction xs) (auto simp add: andThen_def throwIf_def split: sum.splits)

lemma requiredFields_split:
  "requiredFields =
     [''personaName'', ''summary'', ''professionalContext'', ''communicationStyle'',
      ''designBiases'', ''contentBiases'', ''briefConflicts''] @ [''designGuidance'']"
  by (simp add: requiredFields_def)

lemma checkRequired_guidance_falsy:
  assumes "getProp J (Some parsed) ''designGuidance'' = Inr d" "\<not> truthy d"
      and "checkRequired J parsed
             [''personaName'', ''summary'', ''professionalContext'', ''communicationStyle'',
              ''designBiases'', ''contentBiases'', ''briefConflicts''] = Inr ()"
  shows "checkRequired J parsed requiredFields =
           Inl (Error ''Missing required field: designGuidance'')"
proof -
  have one: "checkRequired J parsed [''designGuidance''] =
               Inl (Error ''Missing required field: designGuidance'')"
    using assms(1,2) by (simp add: throwIf_def falsy_def)
  show ?thesis
    apply (subst requiredFields_split)
    apply (subst checkRequired_append)
    apply (simp only: assms(3) one andThen_def sum.case)
    done
qed

text \<open>
  Claim C8, as the code has it.  When \<open>designGuidance.avoid\<close> is missing,
  \<open>parsePersonaResult\<close> fails, also when \<open>designGuidance\<close> itself is absent or \<open>null\<close>.
  The error does not name the field.  If \<open>designGuidance\<close> is there and the checks before
  the design guidance pass, the error is
  \<open>Failed to parse Gemini response: Invalid designGuidance structure\<close>, which names the
  enclosing object; a missing \<open>designGuidance.do\<close> gives the same error.  If
  \<open>designGuidance\<close> is absent, \<open>null\<close> or otherwise falsy and the seven required fields
  before it are there, the error is
  \<open>Failed to parse Gemini response: Missing required field: designGuidance\<close>.  When
  \<open>designGuidance.do\<close> is an empty list, \<open>parsePersonaResult\<close> fails.
\<close>

theorem parsePersonaResult_guidance:
  assumes "jsonParse J (stripJsonFences text) = Inr parsed"
  shows "(get2 J parsed ''designGuidance'' ''avoid'' = Inr None \<longrightarrow>
            isl (fst (parsePersonaResult J text s)) \<and>
            (checkRequired J parsed requiredFields = Inr () \<and> nestedChecks J parsed = Inr () \<longrightarrow>
               parsePersonaResult J text s =
                 (Inl (Error ''Failed to parse Gemini response: Invalid designGuidance structure''),
                  logger ERROR ''Error parsing persona result: Invalid designGuidance structure'' s))) \<and>
         (get2 J parsed ''designGuidance'' ''do'' = Inr (Some (JArray [] ps)) \<longrightarrow>
            isl (fst (parsePersonaResult J text s))) \<and>
         (get2 J parsed ''designGuidance'' ''do'' = Inr None \<longrightarrow>
            isl (fst (parsePersonaResult J text s)) \<and>
            (checkRequired J parsed requiredFields = Inr () \<and> nestedChecks J parsed = Inr () \<longrightarrow>
               parsePersonaResult J text s =
                 (Inl (Error ''Failed to parse Gemini response: Invalid designGuidance structure''),
                  logger ERROR ''Error parsing persona result: Invalid designGuidance structure'' s))) \<and>
         ((\<forall>v. get2 J parsed ''designGuidance'' ''avoid'' \<noteq> Inr (Some v)) \<longrightarrow>
            isl (fst (parsePersonaResult J text s))) \<and>
         (getProp J (Some parsed) ''designGuidance'' = Inr d \<and> \<not> truthy d \<and>
          checkRequired J parsed
            [''personaName'', ''summary'', ''professionalContext'', ''communicationStyle'',
             ''designBiases'', ''contentBiases'', ''briefConflicts''] = Inr () \<longrightarrow>
            parsePersonaResult J text s =
              (Inl (Error ''Failed to parse Gemini response: Missing required field: designGuidance''),
               logger ERROR ''Error parsing persona result: Missing required field: designGuidance'' s))"
proof (intro conjI impI)
  assume a: "get2 J parsed ''designGuidance'' ''avoid'' = Inr None"
  then have g: "guidanceChecks J parsed = Inl (Error ''Invalid designGuidance structure'')"
    by (rule guidance_without_avoid)
  then show "isl (fst (parsePersonaResult J text s))"
    using personaResultBody_guidance_fails[OF assms] by (simp add: parsePersonaResult_isl)
  assume "checkRequired J parsed requiredFields = Inr () \<and> nestedChecks J parsed = Inr ()"
  with g assms show "parsePersonaResult J text s =
                 (Inl (Error ''Failed to parse Gemini response: Invalid designGuidance structure''),
                  logger ERROR ''Error parsing persona result: Invalid designGuidance structure'' s)"
    by (simp add: parsePersonaResult_def personaResultBody_def andThen_def)
next
  assume "get2 J parsed ''designGuidance'' ''do'' = Inr (Some (JArray [] ps))"
  then have "isl (guidanceChecks J parsed)" by (rule guidance_empty_do)
  then show "isl (fst (parsePersonaResult J text s))"
    using personaResultBody_guidance_fails[OF assms] by (simp add: parsePersonaResult_isl)
next
  assume a: "get2 J parsed ''designGuidance'' ''do'' = Inr None"
  then have g: "guidanceChecks J parsed = Inl (Error ''Invalid designGuidance structure'')"
    by (rule guidance_without_do)
  then show "isl (fst (parsePersonaResult J text s))"
    using personaResultBody_guidance_fails[OF assms] by (simp add: parsePersonaResult_isl)
  assume "checkRequired J parsed requiredFields = Inr () \<and> nestedChecks J parsed = Inr ()"
  with g assms show "parsePersonaResult J text s =
                 (Inl (Error ''Failed to parse Gemini response: Invalid designGuidance structure''),
                  logger ERROR ''Error parsing persona result: Invalid designGuidance structure'' s)"
    by (simp add: parsePersonaResult_def personaResultBody_def andThen_def)
next
  assume "\<forall>v. get2 J parsed ''designGuidance'' ''avoid'' \<noteq> Inr (Some v)"
  then have "isl (guidanceChecks J parsed)" by (rule guidance_no_avoid_value)
  then show "isl (fst (parsePersonaResult J text s))"
    using personaResultBody_guidance_fails[OF assms] by (simp add: parsePersonaResult_isl)
next
  assume "getProp J (Some parsed) ''designGuidance'' = Inr d \<and> \<not> truthy d \<and>
          checkRequired J parsed
            [''personaName'', ''summary'', ''professionalContext'', ''communicationStyle'',
             ''designBiases'', ''contentBiases'', ''briefConflicts''] = Inr ()"
  then have "checkRequired J parsed requiredFields =
           Inl (Error ''Missing required field: designGuidance'')"
    using checkRequired_guidance_falsy by blast
  with assms show "parsePersonaResult J text s =
              (Inl (Error ''Failed to parse Gemini response: Missing required field: designGuidance''),
               logger ERROR ''Error parsing persona result: Missing required field: designGuidance'' s)"
    by (simp add: parsePersonaResult_def personaResultBody_def andThen_def)
qed

lemma repairVerbosity_object:
  assumes "map_of ps ''communicationStyle'' = Some (JObject cs)"
  shows "repairVerbosity J (JObject ps) =
           Inr (if isValidVerbosity (map_of cs ''verbosity'') then JObject ps
                else JObject (AList.update ''communicationStyle''
                       (JObject (AList.update ''verbosity'' (JString ''medium'') cs)) ps))"
  using assms by (simp add: repairVerbosity_def)

lemma nestedChecks_verbosity:
  assumes "nestedChecks J (JObject ps) = Inr ()"
      and "map_of ps ''communicationStyle'' = Some (JObject cs)"
  shows "truthy (map_of cs ''verbosity'')"
proof -
  from assms(1) have "falsy (get2 J (JObject ps) ''communicationStyle'' ''verbosity'') = Inr False"
    unfolding nestedChecks_def throwIf_Inr orElse_False by blast
  with assms(2) show ?thesis
    by (simp add: falsy_False get2_def)
qed

lemma parsePersonaResult_Inr:
  "fst (parsePersonaResult J text s) = Inr r \<longleftrightarrow> personaResultBody J text = Inr r"
  by (simp add: parsePersonaResult_def split: sum.splits)

lemma parseProfileAnalysis_Inr:
  "fst (parseProfileAnalysis J text s) = Inr r \<longleftrightarrow> profileAnalysisBody J text = Inr r"
  by (simp add: parseProfileAnalysis_def split: sum.splits)

lemma nestedChecks_falsy_verbosity:
  assumes "map_of ps ''communicationStyle'' = Some (JObject cs)"
      and "falsy (get2 J (JObject ps) ''professionalContext'' ''role'') = Inr False"
      and "falsy (get2 J (JObject ps) ''professionalContext'' ''industry'') = Inr False"
      and "falsy (get2 J (JObject ps) ''professionalContext'' ''seniority'') = Inr False"
      and "\<not> truthy (map_of cs ''verbosity'')"
  shows "nestedChecks J (JObject ps) = Inl (Error ''Invalid communicationStyle structure'')"
proof -
  have t: "get2 J (JObject ps) ''communicationStyle'' ''tone'' = Inr (map_of cs ''tone'')"
    and v: "get2 J (JObject ps) ''communicationStyle'' ''verbosity'' = Inr (map_of cs ''verbosity'')"
    using assms(1) by (simp_all add: get2_def)
  show ?thesis
    unfolding nestedChecks_def assms(2,3,4) t v
    using assms(5) by (simp add: throwIf_def orElse_def falsy_def)
qed

text \<open>
  Claim C9, as the code has it.  The parsed document is an object whose
  \<open>communicationStyle\<close> is an object.  If its verbosity is not one of \<open>low\<close>, \<open>medium\<close>,
  \<open>high\<close> and all checks of \<open>parsePersonaResult\<close> pass (which requires the verbosity to
  be truthy), \<open>parsePersonaResult\<close> succeeds and returns the document with the verbosity
  set to \<open>medium\<close>.  If its verbosity is not one of the three values and the four sections
  of an analysis are there, \<open>parseProfileAnalysis\<close> succeeds and returns the document with
  the verbosity set to \<open>medium\<close>, also when the verbosity is missing.  A persona document
  that passes the checks before the communication style and whose verbosity is missing,
  empty or otherwise falsy is rejected by \<open>parsePersonaResult\<close> with
  \<open>Failed to parse Gemini response: Invalid communicationStyle structure\<close>.  The
  verbosity is the only repair: whenever either parser succeeds, it returns the parsed
  document unchanged, or changed in the verbosity alone when that was not one of the three
  values.
\<close>

theorem verbosity_coerced:
  assumes "jsonParse J (stripJsonFences text) = Inr (JObject ps)"
      and "map_of ps ''communicationStyle'' = Some (JObject cs)"
  shows "(\<not> isValidVerbosity (map_of cs ''verbosity'') \<and>
          checkRequired J (JObject ps) requiredFields = Inr () \<and>
          nestedChecks J (JObject ps) = Inr () \<and>
          guidanceChecks J (JObject ps) = Inr () \<longrightarrow>
            truthy (map_of cs ''verbosity'') \<and>
            parsePersonaResult J text s =
              (Inr (JObject (AList.update ''communicationStyle''
                      (JObject (AList.update ''verbosity'' (JString ''medium'') cs)) ps)), s)) \<and>
         (\<not> isValidVerbosity (map_of cs ''verbosity'') \<and>
          truthy (map_of ps ''professionalContext'') \<and>
          truthy (map_of ps ''inferredDesignPreferences'') \<and>
          truthy (map_of ps ''inferredContentPreferences'') \<longrightarrow>
            parseProfileAnalysis J text s =
              (Inr (JObject (AList.update ''communicationStyle''
                      (JObject (AList.update ''verbosity'' (JString ''medium'') cs)) ps)), s)) \<and>
         (checkRequired J (JObject ps) requiredFields = Inr () \<and>
          falsy (get2 J (JObject ps) ''professionalContext'' ''role'') = Inr False \<and>
          falsy (get2 J (JObject ps) ''professionalContext'' ''industry'') = Inr False \<and>
          falsy (get2 J (JObject ps) ''professionalContext'' ''seniority'') = Inr False \<and>
          \<not> truthy (map_of cs ''verbosity'') \<longrightarrow>
            parsePersonaResult J text s =
              (Inl (Error ''Failed to parse Gemini response: Invalid communicationStyle structure''),
               logger ERROR ''Error parsing persona result: Invalid communicationStyle structure'' s)) \<and>
         (\<forall>r. fst (parsePersonaResult J text s) = Inr r \<or>
              fst (parseProfileAnalysis J text s) = Inr r \<longrightarrow>
              r = (if isValidVerbosity (map_of cs ''verbosity'') then JObject ps
                   else JObject (AList.update ''communicationStyle''
                          (JObject (AList.update ''verbosity'' (JString ''medium'') cs)) ps)))"
proof (intro conjI impI allI)
  assume c: "\<not> isValidVerbosity (map_of cs ''verbosity'') \<and>
          checkRequired J (JObject ps) requiredFields = Inr () \<and>
          nestedChecks J (JObject ps) = Inr () \<and>
          guidanceChecks J (JObject ps) = Inr ()"
  then show "truthy (map_of cs ''verbosity'')"
    using nestedChecks_verbosity[OF _ assms(2)] by blast
  from c assms show "parsePersonaResult J text s =
              (Inr (JObject (AList.update ''communicationStyle''
                      (JObject (AList.update ''verbosity'' (JString ''medium'') cs)) ps)), s)"
    by (simp add: parsePersonaResult_def personaResultBody_def andThen_def
          repairVerbosity_object)
next
  assume "\<not> isValidVerbosity (map_of cs ''verbosity'') \<and>
          truthy (map_of ps ''professionalContext'') \<and>
          truthy (map_of ps ''inferredDesignPreferences'') \<and>
          truthy (map_of ps ''inferredContentPreferences'')"
  with assms show "parseProfileAnalysis J text s =
              (Inr (JObject (AList.update ''communicationStyle''
                      (JObject (AList.update ''verbosity'' (JString ''medium'') cs)) ps)), s)"
    by (simp add: parseProfileAnalysis_def profileAnalysisBody_def throwIf_def orElse_def
          falsy_def repairVerbosity_object)
next
  assume c: "checkRequired J (JObject ps) requiredFields = Inr () \<and>
          falsy (get2 J (JObject ps) ''professionalContext'' ''role'') = Inr False \<and>
          falsy (get2 J (JObject ps) ''professionalContext'' ''industry'') = Inr False \<and>
          falsy (get2 J (JObject ps) ''professionalContext'' ''seniority'') = Inr False \<and>
          \<not> truthy (map_of cs ''verbosity'')"
  then have "nestedChecks J (JObject ps) = Inl (Error ''Invalid communicationStyle structure'')"
    using nestedChecks_falsy_verbosity[OF assms(2)] by blast
  with c assms(1) show "parsePersonaResult J text s =
              (Inl (Error ''Failed to parse Gemini response: Invalid communicationStyle structure''),
               logger ERROR ''Error parsing persona result: Invalid communicationStyle structure'' s)"
    by (simp add: parsePersonaResult_def personaResultBody_def andThen_def)
next
  fix r
  assume "fst (parsePersonaResult J text s) = Inr r \<or>
          fst (parseProfileAnalysis J text s) = Inr r"
  then have "repairVerbosity J (JObject ps) = Inr r"
    using assms(1)
    by (auto simp add: parsePersonaResult_Inr parseProfileAnalysis_Inr personaResultBody_def
          profileAnalysisBody_def andThen_Inr throwIf_Inr)
  then show "r = (if isValidVerbosity (map_of cs ''verbosity'') then JObject ps
                   else JObject (AList.update ''communicationStyle''
                          (JObject (AList.update ''verbosity'' (JString ''medium'') cs)) ps))"
    by (simp add: repairVerbosity_object[OF assms(2)])
qed

lemmas scenario_defs = parsesTo_def yield_def personaJson_def personaFields_def styleFields_def
  fullGuidance_def guidanceWithoutAvoid_def guidanceWithoutDo_def guidanceEmptyDo_def analysisJson_def
  analysisFields_def requiredFields_def get2_def throwIf_def orElse_def falsy_def notArray_def
  isEmptyArray_def nestedChecks_def guidanceChecks_def

theorem parsePersonaResult_guidance_witness:
  "parsePersonaResult (parsesTo (personaJson (JString ''medium'') guidanceWithoutAvoid)) response
     \<lparr>remote = (), trace = []\<rparr> =
     (Inl (Error ''Failed to parse Gemini response: Invalid designGuidance structure''),
      \<lparr>remote = (), trace =
         [Logged ERROR ''Error parsing persona result: Invalid designGuidance structure'']\<rparr>) \<and>
   isl (fst (parsePersonaResult (parsesTo (personaJson (JString ''medium'') guidanceEmptyDo))
               response \<lparr>remote = (), trace = []\<rparr>)) \<and>
   parsePersonaResult (parsesTo (personaJson (JString ''medium'') guidanceWithoutDo)) response
     \<lparr>remote = (), trace = []\<rparr> =
     (Inl (Error ''Failed to parse Gemini response: Invalid designGuidance structure''),
      \<lparr>remote = (), trace =
         [Logged ERROR ''Error parsing persona result: Invalid designGuidance structure'']\<rparr>) \<and>
   parsePersonaResult (parsesTo (personaJson (JString ''medium'') JNull)) response
     \<lparr>remote = (), trace = []\<rparr> =
     (Inl (Error ''Failed to parse Gemini response: Missing required field: designGuidance''),
      \<lparr>remote = (), trace =
         [Logged ERROR ''Error parsing persona result: Missing required field: designGuidance'']\<rparr>) \<and>
   isl (fst (parsePersonaResult (parsesTo (JObject [])) response \<lparr>remote = (), trace = []\<rparr>))"
proof -
  let ?s = "\<lparr>remote = (), trace = []\<rparr>"
  let ?p1 = "personaJson (JString ''medium'') guidanceWithoutAvoid"
  let ?p2 = "personaJson (JString ''medium'') guidanceEmptyDo"
  let ?p3 = "personaJson (JString ''medium'') guidanceWithoutDo"
  let ?p4 = "personaJson (JString ''medium'') JNull"
  have a1: "jsonParse (parsesTo ?p1) (stripJsonFences response) = Inr ?p1"
    by (simp add: parsesTo_def yield_def)
  have b1: "get2 (parsesTo ?p1) ?p1 ''designGuidance'' ''avoid'' = Inr None"
    by (simp add: scenario_defs)
  have c1: "checkRequired (parsesTo ?p1) ?p1 requiredFields = Inr ()"
    by (simp add: scenario_defs)
  have d1: "nestedChecks (parsesTo ?p1) ?p1 = Inr ()"
    by (simp add: scenario_defs)
  have a2: "jsonParse (parsesTo ?p2) (stripJsonFences response) = Inr ?p2"
    by (simp add: parsesTo_def yield_def)
  have b2: "get2 (parsesTo ?p2) ?p2 ''designGuidance'' ''do'' = Inr (Some (JArray [] []))"
    by (simp add: scenario_defs)
  have a3: "jsonParse (parsesTo ?p3) (stripJsonFences response) = Inr ?p3"
    by (simp add: parsesTo_def yield_def)
  have b3: "get2 (parsesTo ?p3) ?p3 ''designGuidance'' ''do'' = Inr None"
    by (simp add: scenario_defs)
  have c3: "checkRequired (parsesTo ?p3) ?p3 requiredFields = Inr ()"
    by (simp add: scenario_defs)
  have d3: "nestedChecks (parsesTo ?p3) ?p3 = Inr ()"
    by (simp add: scenario_defs)
  have a4: "jsonParse (parsesTo ?p4) (stripJsonFences response) = Inr ?p4"
    by (simp add: parsesTo_def yield_def)
  have b4: "getProp (parsesTo ?p4) (Some ?p4) ''designGuidance'' = Inr (Some JNull) \<and>
            \<not> truthy (Some JNull) \<and>
            checkRequired (parsesTo ?p4) ?p4
              [''personaName'', ''summary'', ''professionalContext'', ''communicationStyle'',
               ''designBiases'', ''contentBiases'', ''briefConflicts''] = Inr ()"
    by (simp add: scenario_defs)
  have a5: "jsonParse (parsesTo (JObject [])) (stripJsonFences response) = Inr (JObject [])"
    by (simp add: parsesTo_def yield_def)
  have b5: "\<forall>v. get2 (parsesTo (JObject [])) (JObject []) ''designGuidance'' ''avoid'' \<noteq> Inr (Some v)"
    by (simp add: scenario_defs)
  note T5 = parsePersonaResult_guidance[OF a5, where s = ?s]
  note T1 = parsePersonaResult_guidance[OF a1, where s = ?s]
  note T2 = parsePersonaResult_guidance[OF a2, where s = ?s and ps = "[]"]
  note T3 = parsePersonaResult_guidance[OF a3, where s = ?s]
  note T4 = parsePersonaResult_guidance[OF a4, where s = ?s and d = "Some JNull"]
  show ?thesis
    using T1[THEN conjunct1, THEN mp, OF b1, THEN conjunct2, THEN mp, OF conjI[OF c1 d1]]
          T2[THEN conjunct2, THEN conjunct1, THEN mp, OF b2]
          T3[THEN conjunct2, THEN conjunct2, THEN conjunct1, THEN mp, OF b3, THEN conjunct2,
             THEN mp, OF conjI[OF c3 d3]]
          T4[THEN conjunct2, THEN conjunct2, THEN conjunct2, THEN conjunct2, THEN mp, OF b4]
          T5[THEN conjunct2, THEN conjunct2, THEN conjunct2, THEN conjunct1, THEN mp, OF b5]
    by (simp add: logger_def emit_def)
qed

text \<open>
  Claim C8 as stated asks for an error naming the missing field.  For a persona document
  that lacks only \<open>designGuidance.avoid\<close> the message does not mention \<open>avoid\<close>.
\<close>

theorem parsePersonaResult_field_name_counterexample:
  "fst (parsePersonaResult (parsesTo (personaJson (JString ''medium'') guidanceWithoutAvoid))
          response \<lparr>remote = (), trace = []\<rparr>) =
     Inl (Error ''Failed to parse Gemini response: Invalid designGuidance structure'') \<and>
   \<not> includesStr ''Failed to parse Gemini response: Invalid designGuidance structure'' ''avoid''"
proof -
  have a: "fst (parsePersonaResult (parsesTo (personaJson (JString ''medium'') guidanceWithoutAvoid))
          response \<lparr>remote = (), trace = []\<rparr>) =
     Inl (Error ''Failed to parse Gemini response: Invalid designGuidance structure'')"
    by (simp add: parsePersonaResult_def personaResultBody_def andThen_def scenario_defs)
  have b: "\<not> includesStr ''Failed to parse Gemini response: Invalid designGuidance structure'' ''avoid''"
    by (simp add: startsWith_def)
  from a b show ?thesis by blast
qed

theorem verbosity_coerced_witness:
  "parsePersonaResult (parsesTo (personaJson (JString ''extreme'') fullGuidance)) response
     \<lparr>remote = (), trace = []\<rparr> =
     (Inr (personaJson (JString ''medium'') fullGuidance), \<lparr>remote = (), trace = []\<rparr>) \<and>
   parseProfileAnalysis (parsesTo (analysisJson (styleFields (JString ''extreme'')))) response
     \<lparr>remote = (), trace = []\<rparr> =
     (Inr (analysisJson (styleFields (JString ''medium''))), \<lparr>remote = (), trace = []\<rparr>) \<and>
   parsePersonaResult (parsesTo (personaJson JNull fullGuidance)) response
     \<lparr>remote = (), trace = []\<rparr> =
     (Inl (Error ''Failed to parse Gemini response: Invalid communicationStyle structure''),
      \<lparr>remote = (), trace =
         [Logged ERROR ''Error parsing persona result: Invalid communicationStyle structure'']\<rparr>) \<and>
   fst (parsePersonaResult (parsesTo (personaJson (JString ''high'') fullGuidance)) response
          \<lparr>remote = (), trace = []\<rparr>) =
     Inr (personaJson (JString ''high'') fullGuidance)"
proof -
  let ?s = "\<lparr>remote = (), trace = []\<rparr>"
  let ?J1 = "parsesTo (personaJson (JString ''extreme'') fullGuidance)"
  let ?ps1 = "personaFields (JString ''extreme'') fullGuidance"
  let ?cs = "styleFields (JString ''extreme'')"
  let ?J2 = "parsesTo (analysisJson ?cs)"
  let ?ps2 = "analysisFields ?cs"
  let ?J3 = "parsesTo (personaJson JNull fullGuidance)"
  let ?ps3 = "personaFields JNull fullGuidance"
  let ?cs3 = "styleFields JNull"
  have a1: "jsonParse ?J1 (stripJsonFences response) = Inr (JObject ?ps1)"
    by (simp add: parsesTo_def yield_def personaJson_def)
  have b1: "map_of ?ps1 ''communicationStyle'' = Some (JObject ?cs)"
    by (simp add: personaFields_def)
  have c1: "\<not> isValidVerbosity (map_of ?cs ''verbosity'') \<and>
            checkRequired ?J1 (JObject ?ps1) requiredFields = Inr () \<and>
            nestedChecks ?J1 (JObject ?ps1) = Inr () \<and>
            guidanceChecks ?J1 (JObject ?ps1) = Inr ()"
    by (simp add: scenario_defs isValidVerbosity_def validVerbosity_def)
  have a2: "jsonParse ?J2 (stripJsonFences response) = Inr (JObject ?ps2)"
    by (simp add: parsesTo_def yield_def analysisJson_def)
  have b2: "map_of ?ps2 ''communicationStyle'' = Some (JObject ?cs)"
    by (simp add: analysisFields_def)
  have c2: "\<not> isValidVerbosity (map_of ?cs ''verbosity'') \<and>
            truthy (map_of ?ps2 ''professionalContext'') \<and>
            truthy (map_of ?ps2 ''inferredDesignPreferences'') \<and>
            truthy (map_of ?ps2 ''inferredContentPreferences'')"
    by (simp add: analysisFields_def styleFields_def isValidVerbosity_def validVerbosity_def)
  have a3: "jsonParse ?J3 (stripJsonFences response) = Inr (JObject ?ps3)"
    by (simp add: parsesTo_def yield_def personaJson_def)
  have b3: "map_of ?ps3 ''communicationStyle'' = Some (JObject ?cs3)"
    by (simp add: personaFields_def)
  have c3: "checkRequired ?J3 (JObject ?ps3) requiredFields = Inr () \<and>
          falsy (get2 ?J3 (JObject ?ps3) ''professionalContext'' ''role'') = Inr False \<and>
          falsy (get2 ?J3 (JObject ?ps3) ''professionalContext'' ''industry'') = Inr False \<and>
          falsy (get2 ?J3 (JObject ?ps3) ''professionalContext'' ''seniority'') = Inr False \<and>
          \<not> truthy (map_of ?cs3 ''verbosity'')"
    by (simp add: scenario_defs)
  let ?J4 = "parsesTo (personaJson (JString ''high'') fullGuidance)"
  let ?ps4 = "personaFields (JString ''high'') fullGuidance"
  let ?cs4 = "styleFields (JString ''high'')"
  have a4: "jsonParse ?J4 (stripJsonFences response) = Inr (JObject ?ps4)"
    by (simp add: parsesTo_def yield_def personaJson_def)
  have b4: "map_of ?ps4 ''communicationStyle'' = Some (JObject ?cs4)"
    by (simp add: personaFields_def)
  have "\<not> isl (fst (parsePersonaResult ?J4 response ?s))"
    by (simp add: parsePersonaResult_def personaResultBody_def andThen_def scenario_defs
          repairVerbosity_def isValidVerbosity_def validVerbosity_def)
  then obtain r where c4: "fst (parsePersonaResult ?J4 response ?s) = Inr r"
    by (cases "fst (parsePersonaResult ?J4 response ?s)") simp_all
  have v4: "isValidVerbosity (map_of ?cs4 ''verbosity'')"
    by (simp add: styleFields_def isValidVerbosity_def validVerbosity_def)
  from verbosity_coerced[OF a4 b4, where s = ?s, THEN conjunct2, THEN conjunct2,
         THEN conjunct2, THEN spec, THEN mp, OF disjI1, OF c4] v4
  have "r = personaJson (JString ''high'') fullGuidance"
    by (simp add: personaJson_def)
  with c4 have d4: "fst (parsePersonaResult ?J4 response ?s) =
     Inr (personaJson (JString ''high'') fullGuidance)"
    by simp
  show ?thesis
    using d4 verbosity_coerced[OF a1 b1, where s = ?s, THEN conjunct1, THEN mp, OF c1,
            THEN conjunct2]
          verbosity_coerced[OF a2 b2, where s = ?s, THEN conjunct2, THEN conjunct1,
            THEN mp, OF c2]
          verbosity_coerced[OF a3 b3, where s = ?s, THEN conjunct2, THEN conjunct2,
            THEN conjunct1, THEN mp, OF c3]
    by (simp add: personaJson_def personaFields_def analysisJson_def analysisFields_def
          styleFields_def logger_def emit_def)
qed

text \<open>
  Claim C9 as stated covers every verbosity outside the three values.  A persona
  document whose verbosity is the empty string is rejected, although the same document
  with verbosity \<open>medium\<close> is accepted.
\<close>

theorem verbosity_empty_counterexample:
  "fst (parsePersonaResult (parsesTo (personaJson (JString []) fullGuidance)) response
          \<lparr>remote = (), trace = []\<rparr>) =
     Inl (Error ''Failed to parse Gemini response: Invalid communicationStyle structure'') \<and>
   fst (parsePersonaResult (parsesTo (personaJson (JString ''medium'') fullGuidance)) response
          \<lparr>remote = (), trace = []\<rparr>) =
     Inr (personaJson (JString ''medium'') fullGuidance) \<and>
   \<not> isValidVerbosity (Some (JString []))"
proof -
  have a: "fst (parsePersonaResult (parsesTo (personaJson (JString []) fullGuidance)) response
          \<lparr>remote = (), trace = []\<rparr>) =
     Inl (Error ''Failed to parse Gemini response: Invalid communicationStyle structure'')"
    by (simp add: parsePersonaResult_def personaResultBody_def andThen_def scenario_defs)
  have b: "fst (parsePersonaResult (parsesTo (personaJson (JString ''medium'') fullGuidance)) response
          \<lparr>remote = (), trace = []\<rparr>) =
     Inr (personaJson (JString ''medium'') fullGuidance)"
    by (simp add: parsePersonaResult_def personaResultBody_def andThen_def scenario_defs
          repairVerbosity_def isValidVerbosity_def validVerbosity_def)
  have c: "\<not> isValidVerbosity (Some (JString []))"
    by (simp add: isValidVerbosity_def validVerbosity_def)
  from a b c show ?thesis by blast
qed

end
